theory Spec2Isabelle
  imports Main
begin

section \<open>Values exchanged with the service\<close>

text \<open>
  Request bodies are parsed JSON objects. A field value is a JSON value; an absent field
  (JavaScript \<open>undefined\<close>) is \<open>None\<close> when a body is read with \<open>map_of\<close>. JSON numbers
  are restricted to integers, and JSON objects as field values are left out.

  Identifiers are ObjectIds, modelled by their canonical text: 24 lower-case hexadecimal
  digits. Instants are milliseconds since the epoch, as \<open>Date.getTime()\<close> returns them.
\<close>

type_synonym oid = string
type_synonym time = int

datatype json = JNull | JBool bool | JNum int | JStr string | JArr "json list"

text \<open>
  What a path of a stored document holds when it is read as \<open>ticket[key]\<close>: nothing, null,
  a string, an ObjectId, or an array.
\<close>

datatype jsval = Undefined | Null | Str string | ObjId oid | Arr "jsval list"

text \<open>JavaScript truthiness, as used by \<open>!title\<close>, \<open>priority || 'medium'\<close>, \<open>if (assignedTo)\<close>.\<close>

fun js_truthy :: "json \<Rightarrow> bool" where
  "js_truthy JNull = False"
| "js_truthy (JBool b) = b"
| "js_truthy (JNum n) = (n \<noteq> 0)"
| "js_truthy (JStr s) = (s \<noteq> [])"
| "js_truthy (JArr xs) = True"

definition truthy :: "json option \<Rightarrow> bool" where
  "truthy v = (case v of None \<Rightarrow> False | Some j \<Rightarrow> js_truthy j)"

text \<open>
  \<open>a || b\<close> on a request field: the field when it is truthy, the fallback otherwise.
\<close>

definition or_else :: "json option \<Rightarrow> json \<Rightarrow> json" where
  "or_else v d = (case v of None \<Rightarrow> d | Some j \<Rightarrow> if js_truthy j then j else d)"

text \<open>
  \<open>ticket[key] !== value\<close> in the update route compares a document path with a parsed
  request value by strict equality. Strings and null compare by value; an ObjectId or an
  array read from the document is an object and is never identical to a freshly parsed
  value; \<open>undefined\<close> equals no JSON value.
\<close>

fun strict_eq :: "jsval \<Rightarrow> json \<Rightarrow> bool" where
  "strict_eq Null JNull = True"
| "strict_eq (Str s) (JStr s') = (s = s')"
| "strict_eq _ _ = False"

subsection \<open>Strings\<close>

definition is_space :: "char \<Rightarrow> bool" where
  "is_space c = (c \<in> set [CHR '' '', CHR 0x09, CHR 0x0A, CHR 0x0B, CHR 0x0C, CHR 0x0D])"

text \<open>\<open>String.prototype.trim\<close>, on ASCII white space.\<close>

definition trim :: "string \<Rightarrow> string" where
  "trim s = rev (dropWhile is_space (rev (dropWhile is_space s)))"

definition digit :: "nat \<Rightarrow> char" where
  "digit n = ''0123456789'' ! (n mod 10)"

function show_nat :: "nat \<Rightarrow> string" where
  "show_nat n = (if n < 10 then [digit n] else show_nat (n div 10) @ [digit n])"
  by pat_completeness auto
termination
  by (relation "measure id") auto

definition show_int :: "int \<Rightarrow> string" where
  "show_int i = (if i < 0 then CHR ''-'' # show_nat (nat (- i)) else show_nat (nat i))"

subsection \<open>ObjectIds\<close>

definition is_hex :: "char \<Rightarrow> bool" where
  "is_hex c = (c \<in> set ''0123456789abcdefABCDEF'')"

definition lower_hex :: "char \<Rightarrow> char" where
  "lower_hex c =
     (if c = CHR ''A'' then CHR ''a'' else if c = CHR ''B'' then CHR ''b''
      else if c = CHR ''C'' then CHR ''c'' else if c = CHR ''D'' then CHR ''d''
      else if c = CHR ''E'' then CHR ''e'' else if c = CHR ''F'' then CHR ''f'' else c)"

text \<open>
  Casting a string to an ObjectId: 24 hexadecimal digits, read case-insensitively.
  \<open>None\<close> is Mongoose's CastError.
\<close>

definition parse_oid :: "string \<Rightarrow> oid option" where
  "parse_oid s = (if length s = 24 \<and> list_all is_hex s then Some (map lower_hex s) else None)"

subsection \<open>Schema casting\<close>

text \<open>
  Mongoose casts a value when a path is set. For a String path: null stays null, a string
  stays, a number or a boolean is converted with \<open>toString\<close>, an array is a CastError.
  For an ObjectId path: null stays null, a well-formed string becomes the ObjectId,
  anything else is a CastError. \<open>None\<close> is the CastError.
\<close>

fun castString :: "json \<Rightarrow> jsval option" where
  "castString JNull = Some Null"
| "castString (JStr s) = Some (Str s)"
| "castString (JNum n) = Some (Str (show_int n))"
| "castString (JBool b) = Some (Str (if b then ''true'' else ''false''))"
| "castString (JArr xs) = None"

fun castObjectId :: "json \<Rightarrow> jsval option" where
  "castObjectId JNull = Some Null"
| "castObjectId (JStr s) = map_option ObjId (parse_oid s)"
| "castObjectId _ = None"

text \<open>The \<open>trim: true\<close> setter of a String path: applied to strings, null passes.\<close>

fun trim_val :: "jsval \<Rightarrow> jsval" where
  "trim_val (Str s) = Str (trim s)"
| "trim_val v = v"

definition castTrimmed :: "json \<Rightarrow> jsval option" where
  "castTrimmed v = map_option trim_val (castString v)"

text \<open>All elements cast, or the first failure makes the whole cast fail.\<close>

fun cast_all :: "json list \<Rightarrow> jsval list option" where
  "cast_all [] = Some []"
| "cast_all (x # xs) =
     (case castTrimmed x of None \<Rightarrow> None
      | Some y \<Rightarrow> (case cast_all xs of None \<Rightarrow> None | Some ys \<Rightarrow> Some (y # ys)))"

text \<open>
  The \<open>tags\<close> path, an array of trimmed strings: null stays null, an array is cast
  element by element, any other value is wrapped into a one-element array.
\<close>

fun castTags :: "json \<Rightarrow> jsval option" where
  "castTags JNull = Some Null"
| "castTags (JArr xs) = map_option Arr (cast_all xs)"
| "castTags v = map_option Arr (cast_all [v])"

section \<open>The Ticket model\<close>

record sla =
  responseTime :: int
  resolutionTime :: int
  responseDeadline :: "time option"
  resolutionDeadline :: "time option"
  isResponseBreached :: bool
  isResolutionBreached :: bool

record ticket =
  t_id :: oid
  title :: jsval
  description :: jsval
  status :: jsval
  priority :: jsval
  category :: jsval
  createdBy :: oid
  assignedTo :: jsval
  sla :: sla
  tags :: jsval
  version :: int
  createdAt :: time
  updatedAt :: time
  firstResponseAt :: "time option"
  resolvedAt :: "time option"
  closedAt :: "time option"

definition validStatuses :: "string list" where
  "validStatuses = [''open'', ''in_progress'', ''pending'', ''resolved'', ''closed'']"

definition validPriorities :: "string list" where
  "validPriorities = [''low'', ''medium'', ''high'', ''urgent'']"

definition validCategories :: "string list" where
  "validCategories = [''technical'', ''billing'', ''general'', ''feature_request'']"

text \<open>
  The default functions of \<open>sla.responseTime\<close> and \<open>sla.resolutionTime\<close>:
  \<open>priorityMap[this.priority] || 24\<close> and \<open>priorityMap[this.priority] || 72\<close>.
\<close>

definition responseTimeDefault :: "jsval \<Rightarrow> int" where
  "responseTimeDefault p =
     (if p = Str ''low'' then 48 else if p = Str ''medium'' then 24
      else if p = Str ''high'' then 8 else if p = Str ''urgent'' then 2 else 24)"

definition resolutionTimeDefault :: "jsval \<Rightarrow> int" where
  "resolutionTimeDefault p =
     (if p = Str ''low'' then 168 else if p = Str ''medium'' then 72
      else if p = Str ''high'' then 24 else if p = Str ''urgent'' then 8 else 72)"

subsection \<open>Paths read and written by name\<close>

text \<open>\<open>ticket[key]\<close> for the keys the update route may touch.\<close>

definition get_path :: "string \<Rightarrow> ticket \<Rightarrow> jsval" where
  "get_path k t =
     (if k = ''title'' then title t
      else if k = ''description'' then description t
      else if k = ''status'' then status t
      else if k = ''priority'' then priority t
      else if k = ''category'' then category t
      else if k = ''assignedTo'' then assignedTo t
      else if k = ''tags'' then tags t
      else Undefined)"

definition put_path :: "string \<Rightarrow> jsval \<Rightarrow> ticket \<Rightarrow> ticket" where
  "put_path k v t =
     (if k = ''title'' then t\<lparr>title := v\<rparr>
      else if k = ''description'' then t\<lparr>description := v\<rparr>
      else if k = ''status'' then t\<lparr>status := v\<rparr>
      else if k = ''priority'' then t\<lparr>priority := v\<rparr>
      else if k = ''category'' then t\<lparr>category := v\<rparr>
      else if k = ''assignedTo'' then t\<lparr>assignedTo := v\<rparr>
      else if k = ''tags'' then t\<lparr>tags := v\<rparr>
      else t)"

text \<open>The schema type of each path decides its cast.\<close>

definition cast_path :: "string \<Rightarrow> json \<Rightarrow> jsval option" where
  "cast_path k v =
     (if k = ''title'' then castTrimmed v
      else if k = ''description'' \<or> k = ''status'' \<or> k = ''priority'' \<or> k = ''category''
        then castString v
      else if k = ''assignedTo'' then castObjectId v
      else if k = ''tags'' then castTags v
      else None)"

text \<open>
  The validators of the schema: \<open>required\<close> and \<open>maxlength\<close> on title and description,
  \<open>enum\<close> on status, priority and category (an enum validator lets null and undefined
  pass). Lengths are counted in characters of the model's strings.
\<close>

definition required_string :: "nat \<Rightarrow> jsval \<Rightarrow> bool" where
  "required_string maxlen v = (case v of Str s \<Rightarrow> s \<noteq> [] \<and> length s \<le> maxlen | _ \<Rightarrow> False)"

definition enum_ok :: "string list \<Rightarrow> jsval \<Rightarrow> bool" where
  "enum_ok vals v = (case v of Str s \<Rightarrow> s \<in> set vals | Null \<Rightarrow> True | Undefined \<Rightarrow> True | _ \<Rightarrow> False)"

definition validate_path :: "string \<Rightarrow> ticket \<Rightarrow> bool" where
  "validate_path k t =
     (if k = ''title'' then required_string 200 (title t)
      else if k = ''description'' then required_string 2000 (description t)
      else if k = ''status'' then enum_ok validStatuses (status t)
      else if k = ''priority'' then enum_ok validPriorities (priority t)
      else if k = ''category'' then enum_ok validCategories (category t)
      else True)"

subsection \<open>Documents in memory\<close>

text \<open>
  A Mongoose document: the current values, whether it is new, the paths marked modified,
  and the paths whose last assignment could not be cast. Setting a path to a value that
  is deeply equal to the current one does not mark it modified.
\<close>

record tdoc =
  cur :: ticket
  isNew :: bool
  modifiedPaths :: "string list"
  castErrors :: "string list"

definition loaded :: "ticket \<Rightarrow> tdoc" where
  "loaded t = \<lparr>cur = t, isNew = False, modifiedPaths = [], castErrors = []\<rparr>"

definition doc_set :: "string \<Rightarrow> json \<Rightarrow> tdoc \<Rightarrow> tdoc" where
  "doc_set k v d =
     (case cast_path k v of
        None \<Rightarrow> d\<lparr>castErrors := castErrors d @ [k]\<rparr>
      | Some x \<Rightarrow>
          if x = get_path k (cur d) then d
          else d\<lparr>cur := put_path k x (cur d), modifiedPaths := modifiedPaths d @ [k]\<rparr>)"

text \<open>\<open>ticket.firstResponseAt = new Date()\<close>.\<close>

definition set_firstResponseAt :: "time \<Rightarrow> tdoc \<Rightarrow> tdoc" where
  "set_firstResponseAt now d =
     (if firstResponseAt (cur d) = Some now then d
      else d\<lparr>cur := (cur d)\<lparr>firstResponseAt := Some now\<rparr>,
             modifiedPaths := modifiedPaths d @ [''firstResponseAt'']\<rparr>)"

definition isModified :: "tdoc \<Rightarrow> bool" where
  "isModified d = (modifiedPaths d \<noteq> [])"

definition isModifiedPath :: "string \<Rightarrow> tdoc \<Rightarrow> bool" where
  "isModifiedPath k d = (k \<in> set (modifiedPaths d))"

subsection \<open>The pre-save hook\<close>

text \<open>
  \<open>ticketSchema.pre('save')\<close>, with one reading of the clock for the whole hook. The
  deadlines are written for a new document only; an existing document that is modified
  gets a new \<open>updatedAt\<close> and \<open>version + 1\<close>; a modified status sets \<open>resolvedAt\<close> and
  \<open>closedAt\<close> once.
\<close>

definition hours :: "int \<Rightarrow> int" where
  "hours h = h * 60 * 60 * 1000"

definition pre_save :: "time \<Rightarrow> tdoc \<Rightarrow> tdoc" where
  "pre_save now d =
     (let t0 = cur d;
          t1 = (if isNew d
                then t0\<lparr>sla := (sla t0)\<lparr>
                       responseDeadline := Some (now + hours (responseTime (sla t0))),
                       resolutionDeadline := Some (now + hours (resolutionTime (sla t0)))\<rparr>\<rparr>
                else t0);
          t2 = (if isModified d \<and> \<not> isNew d
                then t1\<lparr>updatedAt := now, version := version t1 + 1\<rparr>
                else t1);
          t3 = (if isModifiedPath ''status'' d
                then (let r = (if status t2 = Str ''resolved'' \<and> resolvedAt t2 = None
                               then t2\<lparr>resolvedAt := Some now\<rparr> else t2)
                      in if status r = Str ''closed'' \<and> closedAt r = None
                         then r\<lparr>closedAt := Some now\<rparr> else r)
                else t2)
      in d\<lparr>cur := t3\<rparr>)"

subsection \<open>The breach check\<close>

text \<open>
  \<open>checkSLABreaches\<close>: a flag is raised when its milestone is unset and the clock is past
  the deadline; the method never lowers a flag. A comparison with an unset deadline is
  false.
\<close>

definition past :: "time \<Rightarrow> time option \<Rightarrow> bool" where
  "past now d = (case d of None \<Rightarrow> False | Some dl \<Rightarrow> now > dl)"

definition checkSLABreaches :: "time \<Rightarrow> ticket \<Rightarrow> ticket" where
  "checkSLABreaches now t =
     (let t1 = (if firstResponseAt t = None \<and> past now (responseDeadline (sla t))
                then t\<lparr>sla := (sla t)\<lparr>isResponseBreached := True\<rparr>\<rparr> else t)
      in if resolvedAt t1 = None \<and> past now (resolutionDeadline (sla t1))
         then t1\<lparr>sla := (sla t1)\<lparr>isResolutionBreached := True\<rparr>\<rparr> else t1)"

section \<open>The record store\<close>

text \<open>
  Modelled from the spec: the User model (\<open>models/User.js\<close>) is not among the sources.
  An actor has an identity, a display name, one of the three roles of the authorization
  policy, and an active flag.
\<close>

datatype role = RUser | RAgent | RAdmin

record user =
  u_id :: oid
  u_name :: string
  u_role :: role
  u_isActive :: bool

record comment =
  c_ticket :: oid
  c_author :: oid
  c_content :: jsval
  c_type :: jsval
  c_isFirstResponse :: bool
  c_createdAt :: time

text \<open>
  The structured payload of a timeline entry. The human-readable description is left
  out; its length validator is taken to pass.
\<close>

datatype details =
    NoDetails
  | FieldChange string jsval json
  | AssigneeChange "string option" "string option"
  | StatusChange jsval string
  | PriorityChange jsval string
  | BulkAssignee "string option"

record timeline_entry =
  tl_ticket :: oid
  tl_user :: oid
  tl_action :: string
  tl_details :: details
  tl_createdAt :: time

text \<open>
  The collections. Every route runs as one step on the store; requests do not interleave.
\<close>

record store =
  users :: "oid \<rightharpoonup> user"
  tickets :: "oid \<rightharpoonup> ticket"
  comments :: "comment list"
  timeline :: "timeline_entry list"

datatype exn = ValidationError | CastError

text \<open>\<open>Model.findById(id)\<close>: a malformed id is a CastError, an unknown id gives null.\<close>

definition findById :: "(oid \<rightharpoonup> 'a) \<Rightarrow> string \<Rightarrow> exn + 'a option" where
  "findById m raw = (case parse_oid raw of None \<Rightarrow> Inl CastError | Some i \<Rightarrow> Inr (m i))"

text \<open>\<open>User.findById(value)\<close> with a value taken from a request body.\<close>

definition findUser :: "(oid \<rightharpoonup> user) \<Rightarrow> json \<Rightarrow> exn + user option" where
  "findUser m v =
     (case castObjectId v of
        None \<Rightarrow> Inl CastError
      | Some (ObjId i) \<Rightarrow> Inr (m i)
      | Some _ \<Rightarrow> Inr None)"

text \<open>\<open>User.findById(ticket.assignedTo)\<close> with a value read from a document.\<close>

definition findUserRef :: "(oid \<rightharpoonup> user) \<Rightarrow> jsval \<Rightarrow> user option" where
  "findUserRef m v = (case v of ObjId i \<Rightarrow> m i | _ \<Rightarrow> None)"

subsection \<open>Saving a ticket\<close>

definition all_paths :: "string list" where
  "all_paths = [''title'', ''description'', ''status'', ''priority'', ''category'',
                ''assignedTo'', ''tags'']"

text \<open>
  Validation runs before the pre-save hook, over the paths of the document; a path whose
  assignment could not be cast fails it.
\<close>

definition validate :: "tdoc \<Rightarrow> bool" where
  "validate d = (castErrors d = [] \<and> list_all (\<lambda>k. validate_path k (cur d)) all_paths)"

text \<open>
  \<open>ticket.save()\<close>: validation, the pre-save hook, then the write. A document that is
  neither new nor modified is not written.
\<close>

definition save :: "time \<Rightarrow> tdoc \<Rightarrow> (oid \<rightharpoonup> ticket) \<Rightarrow> exn + (ticket \<times> (oid \<rightharpoonup> ticket))" where
  "save now d m =
     (if \<not> validate d then Inl ValidationError
      else (let d' = pre_save now d
            in Inr (cur d', if isNew d' \<or> isModified d' then m(t_id (cur d') \<mapsto> cur d') else m)))"

text \<open>
  \<open>Ticket.create(fields)\<close>: the static defaults of the schema, the given fields, the
  default functions of the SLA hours (which read the priority just set), then \<open>save\<close>.
  The identifier of the new document is generated by the driver and is passed in.
\<close>

definition blank_ticket :: "oid \<Rightarrow> time \<Rightarrow> oid \<Rightarrow> ticket" where
  "blank_ticket new_id now creator =
     \<lparr>t_id = new_id, title = Undefined, description = Undefined, status = Str ''open'',
      priority = Str ''medium'', category = Str ''general'', createdBy = creator,
      assignedTo = Undefined,
      sla = \<lparr>responseTime = 0, resolutionTime = 0, responseDeadline = None,
             resolutionDeadline = None, isResponseBreached = False,
             isResolutionBreached = False\<rparr>,
      tags = Arr [], version = 0, createdAt = now, updatedAt = now,
      firstResponseAt = None, resolvedAt = None, closedAt = None\<rparr>"

definition sla_defaults :: "ticket \<Rightarrow> ticket" where
  "sla_defaults t =
     t\<lparr>sla := (sla t)\<lparr>responseTime := responseTimeDefault (priority t),
                       resolutionTime := resolutionTimeDefault (priority t)\<rparr>\<rparr>"

definition Ticket_create ::
  "time \<Rightarrow> oid \<Rightarrow> (string \<times> json) list \<Rightarrow> oid \<Rightarrow> (oid \<rightharpoonup> ticket)
     \<Rightarrow> exn + (ticket \<times> (oid \<rightharpoonup> ticket))" where
  "Ticket_create now new_id given creator m =
     (let d0 = \<lparr>cur = blank_ticket new_id now creator, isNew = True, modifiedPaths = [],
                castErrors = []\<rparr>;
          d1 = fold (\<lambda>(k, v). doc_set k v) given d0;
          d2 = d1\<lparr>cur := sla_defaults (cur d1)\<rparr>
      in save now d2 m)"

text \<open>
  \<open>Ticket.updateMany({_id: {$in: ids}}, {assignedTo: v})\<close>: a query update. It writes the
  one field on every matching document and runs no save middleware. \<open>modifiedCount\<close>
  counts the documents whose stored value differed.
\<close>

definition updateMany_assignedTo :: "oid list \<Rightarrow> jsval \<Rightarrow> (oid \<rightharpoonup> ticket) \<Rightarrow> (oid \<rightharpoonup> ticket)" where
  "updateMany_assignedTo ids v m =
     (\<lambda>k. if k \<in> set ids then map_option (\<lambda>t. t\<lparr>assignedTo := v\<rparr>) (m k) else m k)"

definition modifiedCount :: "oid list \<Rightarrow> jsval \<Rightarrow> (oid \<rightharpoonup> ticket) \<Rightarrow> nat" where
  "modifiedCount ids v m =
     length (filter (\<lambda>k. case m k of None \<Rightarrow> False | Some t \<Rightarrow> assignedTo t \<noteq> v) (remdups ids))"

text \<open>Every element of \<open>$in\<close> is cast to an ObjectId; one failure fails the query.\<close>

fun cast_ids :: "json list \<Rightarrow> oid list option" where
  "cast_ids [] = Some []"
| "cast_ids (x # xs) =
     (case castObjectId x of
        Some (ObjId i) \<Rightarrow> (case cast_ids xs of None \<Rightarrow> None | Some is \<Rightarrow> Some (i # is))
      | _ \<Rightarrow> None)"

section \<open>Responses and errors\<close>

text \<open>
  A response is a status code and a body. Error bodies keep the error code; messages and
  field names are left out, and so are the populated user references of a ticket.
\<close>

datatype body =
    ErrorBody string
  | TicketBody ticket
  | TicketDetail ticket "comment list" "timeline_entry list"
  | CommentBody comment
  | BulkBody nat

type_synonym response = "nat \<times> body"

definition errorHandler :: "exn \<Rightarrow> response" where
  "errorHandler e =
     (case e of ValidationError \<Rightarrow> (400, ErrorBody ''VALIDATION_ERROR'')
      | CastError \<Rightarrow> (400, ErrorBody ''INVALID_ID''))"

definition createTimelineEntry ::
  "time \<Rightarrow> oid \<Rightarrow> oid \<Rightarrow> string \<Rightarrow> details \<Rightarrow> store \<Rightarrow> store" where
  "createTimelineEntry now ticketId userId action det s =
     s\<lparr>timeline := timeline s @
        [\<lparr>tl_ticket = ticketId, tl_user = userId, tl_action = action, tl_details = det,
          tl_createdAt = now\<rparr>]\<rparr>"

text \<open>The \<open>authorize(...roles)\<close> middleware lets the listed roles through.\<close>

definition authorize :: "role list \<Rightarrow> user \<Rightarrow> bool" where
  "authorize roles actor = (u_role actor \<in> set roles)"

definition isAgentOrAdmin :: "user \<Rightarrow> bool" where
  "isAgentOrAdmin actor = (u_role actor \<in> set [RAgent, RAdmin])"

section \<open>The ticket routes\<close>

text \<open>
  Each route takes the clock, the authenticated actor (\<open>req.user\<close>), the id parameter,
  the parsed body and the store, and returns the response with the store it leaves.
  An exception thrown inside a route goes to \<open>errorHandler\<close>; writes made before it stay.
\<close>

subsection \<open>POST /api/tickets\<close>

definition post_ticket ::
  "time \<Rightarrow> oid \<Rightarrow> user \<Rightarrow> (string \<times> json) list \<Rightarrow> store \<Rightarrow> response \<times> store" where
  "post_ticket now new_id actor b s =
     (let b_title = map_of b ''title'';
          b_description = map_of b ''description'';
          b_priority = map_of b ''priority'';
          b_category = map_of b ''category''
      in if \<not> truthy b_title then ((400, ErrorBody ''FIELD_REQUIRED''), s)
         else if \<not> truthy b_description then ((400, ErrorBody ''FIELD_REQUIRED''), s)
         else (case Ticket_create now new_id
                      [(''title'', the b_title),
                       (''description'', the b_description),
                       (''priority'', or_else b_priority (JStr ''medium'')),
                       (''category'', or_else b_category (JStr ''general''))]
                      (u_id actor) (tickets s) of
                 Inl e \<Rightarrow> (errorHandler e, s)
               | Inr (t, m) \<Rightarrow>
                   ((201, TicketBody t),
                    createTimelineEntry now (t_id t) (u_id actor) ''created'' NoDetails
                      (s\<lparr>tickets := m\<rparr>))))"

subsection \<open>GET /api/tickets/:id\<close>

definition get_ticket :: "time \<Rightarrow> user \<Rightarrow> string \<Rightarrow> store \<Rightarrow> response" where
  "get_ticket now actor tid s =
     (case findById (tickets s) tid of
        Inl e \<Rightarrow> errorHandler e
      | Inr None \<Rightarrow> (404, ErrorBody ''TICKET_NOT_FOUND'')
      | Inr (Some t) \<Rightarrow>
          if u_role actor = RUser \<and> createdBy t \<noteq> u_id actor
          then (403, ErrorBody ''FORBIDDEN'')
          else (200, TicketDetail (checkSLABreaches now t)
                       (filter (\<lambda>c. c_ticket c = t_id t) (comments s))
                       (rev (filter (\<lambda>e. tl_ticket e = t_id t) (timeline s)))))"

subsection \<open>PATCH /api/tickets/:id\<close>

definition allowedFields :: "user \<Rightarrow> string list" where
  "allowedFields actor =
     (if isAgentOrAdmin actor
      then [''status'', ''priority'', ''assignedTo'', ''title'', ''description'', ''category'',
            ''tags'']
      else [''title'', ''description''])"

text \<open>
  \<open>version !== undefined && ticket.version !== version\<close>: the check is skipped when the
  body has no version; a supplied version passes only when it is the stored number.
\<close>

definition stale :: "json option \<Rightarrow> ticket \<Rightarrow> bool" where
  "stale b_version t = (b_version \<noteq> None \<and> b_version \<noteq> Some (JNum (version t)))"

definition patch_ticket ::
  "time \<Rightarrow> user \<Rightarrow> string \<Rightarrow> (string \<times> json) list \<Rightarrow> store \<Rightarrow> response \<times> store" where
  "patch_ticket now actor tid b s =
     (let b_version = map_of b ''version'';
          updates = filter (\<lambda>(k, v). k \<noteq> ''version'') b
      in case findById (tickets s) tid of
           Inl e \<Rightarrow> (errorHandler e, s)
         | Inr None \<Rightarrow> ((404, ErrorBody ''TICKET_NOT_FOUND''), s)
         | Inr (Some t) \<Rightarrow>
             if stale b_version t then ((409, ErrorBody ''STALE_UPDATE''), s)
             else (let isOwner = (createdBy t = u_id actor)
                   in if \<not> isOwner \<and> \<not> isAgentOrAdmin actor
                      then ((403, ErrorBody ''FORBIDDEN''), s)
                      else (let filteredUpdates =
                                  filter (\<lambda>(k, v). k \<in> set (allowedFields actor)) updates;
                                changes =
                                  filter (\<lambda>(k, v). \<not> strict_eq (get_path k t) v) filteredUpdates;
                                d = fold (\<lambda>(k, v). doc_set k v) filteredUpdates (loaded t)
                            in case save now d (tickets s) of
                                 Inl e \<Rightarrow> (errorHandler e, s)
                               | Inr (t', m) \<Rightarrow>
                                   ((200, TicketBody t'),
                                    fold (\<lambda>(k, v). createTimelineEntry now (t_id t') (u_id actor)
                                            ''updated'' (FieldChange k (get_path k t) v))
                                      changes (s\<lparr>tickets := m\<rparr>)))))"

subsection \<open>POST /api/tickets/:id/comments\<close>

text \<open>
  \<open>Comment.create\<close>: content is a required string of at most 2000 characters, type is one
  of the two kinds.
\<close>

definition Comment_create ::
  "time \<Rightarrow> oid \<Rightarrow> oid \<Rightarrow> json \<Rightarrow> json \<Rightarrow> bool \<Rightarrow> exn + comment" where
  "Comment_create now ticketId author content ty isFirst =
     (case (castString content, castString ty) of
        (Some c, Some k) \<Rightarrow>
          if required_string 2000 c \<and> enum_ok [''comment'', ''internal_note''] k
          then Inr \<lparr>c_ticket = ticketId, c_author = author, c_content = c, c_type = k,
                    c_isFirstResponse = isFirst, c_createdAt = now\<rparr>
          else Inl ValidationError
      | _ \<Rightarrow> Inl ValidationError)"

text \<open>\<open>Comment.countDocuments({ticket: id, type: 'comment'})\<close>.\<close>

definition existingComments :: "oid \<Rightarrow> comment list \<Rightarrow> nat" where
  "existingComments ticketId cs =
     length (filter (\<lambda>c. c_ticket c = ticketId \<and> c_type c = Str ''comment'') cs)"

definition post_comment ::
  "time \<Rightarrow> user \<Rightarrow> string \<Rightarrow> (string \<times> json) list \<Rightarrow> store \<Rightarrow> response \<times> store" where
  "post_comment now actor tid b s =
     (let content = map_of b ''content'';
          ty = (case map_of b ''type'' of None \<Rightarrow> JStr ''comment'' | Some j \<Rightarrow> j)
      in if \<not> truthy content then ((400, ErrorBody ''FIELD_REQUIRED''), s)
         else (case findById (tickets s) tid of
                 Inl e \<Rightarrow> (errorHandler e, s)
               | Inr None \<Rightarrow> ((404, ErrorBody ''TICKET_NOT_FOUND''), s)
               | Inr (Some t) \<Rightarrow>
                   (let isOwner = (createdBy t = u_id actor)
                    in if \<not> isOwner \<and> \<not> isAgentOrAdmin actor
                       then ((403, ErrorBody ''FORBIDDEN''), s)
                       else if ty = JStr ''internal_note'' \<and> u_role actor = RUser
                       then ((403, ErrorBody ''FORBIDDEN''), s)
                       else (let isFirstResponse =
                                   (existingComments (t_id t) (comments s) = 0
                                    \<and> ty = JStr ''comment'')
                             in case Comment_create now (t_id t) (u_id actor) (the content) ty
                                       isFirstResponse of
                                  Inl e \<Rightarrow> (errorHandler e, s)
                                | Inr c \<Rightarrow>
                                    (let s1 = s\<lparr>comments := comments s @ [c]\<rparr>
                                     in case (if isFirstResponse
                                              then save now (set_firstResponseAt now (loaded t))
                                                     (tickets s1)
                                              else Inr (t, tickets s1)) of
                                          Inl e \<Rightarrow> (errorHandler e, s1)
                                        | Inr (t', m) \<Rightarrow>
                                            ((201, CommentBody c),
                                             createTimelineEntry now (t_id t) (u_id actor)
                                               ''commented'' NoDetails (s1\<lparr>tickets := m\<rparr>)))))))"

subsection \<open>POST /api/tickets/:id/assign\<close>

text \<open>
  \<open>if (assignedTo) { assignee = await User.findById(assignedTo) ... }\<close>: the lookup is made
  for a truthy value only.
\<close>

definition lookup_assignee :: "(oid \<rightharpoonup> user) \<Rightarrow> json option \<Rightarrow> exn + user option" where
  "lookup_assignee us v =
     (case v of None \<Rightarrow> Inr None
      | Some j \<Rightarrow> if js_truthy j then findUser us j else Inr None)"

text \<open>\<open>!assignee || !['agent', 'admin'].includes(assignee.role)\<close>.\<close>

definition not_eligible :: "user option \<Rightarrow> bool" where
  "not_eligible a = (case a of None \<Rightarrow> True | Some u \<Rightarrow> u_role u \<notin> set [RAgent, RAdmin])"

definition post_assign ::
  "time \<Rightarrow> user \<Rightarrow> string \<Rightarrow> (string \<times> json) list \<Rightarrow> store \<Rightarrow> response \<times> store" where
  "post_assign now actor tid b s =
     (if \<not> authorize [RAgent, RAdmin] actor then ((403, ErrorBody ''FORBIDDEN''), s)
      else (let b_assignedTo = map_of b ''assignedTo''
            in case findById (tickets s) tid of
                 Inl e \<Rightarrow> (errorHandler e, s)
               | Inr None \<Rightarrow> ((404, ErrorBody ''TICKET_NOT_FOUND''), s)
               | Inr (Some t) \<Rightarrow>
                   if u_role actor = RAgent \<and> truthy b_assignedTo
                      \<and> b_assignedTo \<noteq> Some (JStr (u_id actor))
                   then ((403, ErrorBody ''FORBIDDEN''), s)
                   else (case lookup_assignee (users s) b_assignedTo of
                           Inl e \<Rightarrow> (errorHandler e, s)
                         | Inr assignee \<Rightarrow>
                             if truthy b_assignedTo \<and> not_eligible assignee
                             then ((400, ErrorBody ''INVALID_ASSIGNEE''), s)
                             else (let oldAssignee = assignedTo t;
                                       d = doc_set ''assignedTo'' (or_else b_assignedTo JNull)
                                             (loaded t)
                                   in case save now d (tickets s) of
                                        Inl e \<Rightarrow> (errorHandler e, s)
                                      | Inr (t', m) \<Rightarrow>
                                          (let oldUser = findUserRef (users s) oldAssignee;
                                               newUser = assignee
                                           in ((200, TicketBody t'),
                                               createTimelineEntry now (t_id t') (u_id actor)
                                                 ''assigned''
                                                 (AssigneeChange (map_option u_name oldUser)
                                                    (map_option u_name newUser))
                                                 (s\<lparr>tickets := m\<rparr>)))))))"

subsection \<open>POST /api/tickets/:id/status and /priority\<close>

text \<open>\<open>valid.includes(value)\<close> on a request field: only a listed string passes.\<close>

definition listed :: "string list \<Rightarrow> json option \<Rightarrow> string option" where
  "listed vals v = (case v of Some (JStr x) \<Rightarrow> if x \<in> set vals then Some x else None | _ \<Rightarrow> None)"

definition post_status ::
  "time \<Rightarrow> user \<Rightarrow> string \<Rightarrow> (string \<times> json) list \<Rightarrow> store \<Rightarrow> response \<times> store" where
  "post_status now actor tid b s =
     (if \<not> authorize [RAgent, RAdmin] actor then ((403, ErrorBody ''FORBIDDEN''), s)
      else (case listed validStatuses (map_of b ''status'') of
              None \<Rightarrow> ((400, ErrorBody ''INVALID_STATUS''), s)
            | Some st \<Rightarrow>
                (case findById (tickets s) tid of
                   Inl e \<Rightarrow> (errorHandler e, s)
                 | Inr None \<Rightarrow> ((404, ErrorBody ''TICKET_NOT_FOUND''), s)
                 | Inr (Some t) \<Rightarrow>
                     (let oldStatus = status t;
                          d = doc_set ''status'' (JStr st) (loaded t)
                      in case save now d (tickets s) of
                           Inl e \<Rightarrow> (errorHandler e, s)
                         | Inr (t', m) \<Rightarrow>
                             ((200, TicketBody t'),
                              createTimelineEntry now (t_id t') (u_id actor) ''status_changed''
                                (StatusChange oldStatus st) (s\<lparr>tickets := m\<rparr>))))))"

definition post_priority ::
  "time \<Rightarrow> user \<Rightarrow> string \<Rightarrow> (string \<times> json) list \<Rightarrow> store \<Rightarrow> response \<times> store" where
  "post_priority now actor tid b s =
     (if \<not> authorize [RAgent, RAdmin] actor then ((403, ErrorBody ''FORBIDDEN''), s)
      else (case listed validPriorities (map_of b ''priority'') of
              None \<Rightarrow> ((400, ErrorBody ''INVALID_PRIORITY''), s)
            | Some p \<Rightarrow>
                (case findById (tickets s) tid of
                   Inl e \<Rightarrow> (errorHandler e, s)
                 | Inr None \<Rightarrow> ((404, ErrorBody ''TICKET_NOT_FOUND''), s)
                 | Inr (Some t) \<Rightarrow>
                     (let oldPriority = priority t;
                          d = doc_set ''priority'' (JStr p) (loaded t)
                      in case save now d (tickets s) of
                           Inl e \<Rightarrow> (errorHandler e, s)
                         | Inr (t', m) \<Rightarrow>
                             ((200, TicketBody t'),
                              createTimelineEntry now (t_id t') (u_id actor) ''priority_changed''
                                (PriorityChange oldPriority p) (s\<lparr>tickets := m\<rparr>))))))"

subsection \<open>POST /api/tickets/bulk/assign\<close>

definition post_bulk_assign ::
  "time \<Rightarrow> user \<Rightarrow> (string \<times> json) list \<Rightarrow> store \<Rightarrow> response \<times> store" where
  "post_bulk_assign now actor b s =
     (if \<not> authorize [RAdmin] actor then ((403, ErrorBody ''FORBIDDEN''), s)
      else (case map_of b ''ticketIds'' of
              Some (JArr ticketIds) \<Rightarrow>
                if ticketIds = [] then ((400, ErrorBody ''INVALID_INPUT''), s)
                else (let b_assignedTo = map_of b ''assignedTo''
                      in case lookup_assignee (users s) b_assignedTo of
                           Inl e \<Rightarrow> (errorHandler e, s)
                         | Inr assignee \<Rightarrow>
                             if truthy b_assignedTo \<and> not_eligible assignee
                             then ((400, ErrorBody ''INVALID_ASSIGNEE''), s)
                             else (case (cast_ids ticketIds,
                                         castObjectId (or_else b_assignedTo JNull)) of
                                     (Some ids, Some v) \<Rightarrow>
                                       (let n = modifiedCount ids v (tickets s);
                                            m = updateMany_assignedTo ids v (tickets s);
                                            s1 = s\<lparr>tickets := m\<rparr>
                                        in ((200, BulkBody n),
                                            fold (\<lambda>i st. if m i \<noteq> None
                                                     then createTimelineEntry now i (u_id actor)
                                                            ''assigned''
                                                            (BulkAssignee (map_option u_name assignee))
                                                            st
                                                     else st)
                                              ids s1))
                                   | _ \<Rightarrow> (errorHandler CastError, s)))
            | _ \<Rightarrow> ((400, ErrorBody ''INVALID_INPUT''), s)))"

section \<open>The application: idempotency, authentication, routing\<close>

datatype route =
    PostTicket
  | GetTicket string
  | PatchTicket string
  | PostComment string
  | PostAssign string
  | PostStatus string
  | PostPriority string
  | PostBulkAssign

fun http_method :: "route \<Rightarrow> string" where
  "http_method (GetTicket i) = ''GET''"
| "http_method (PatchTicket i) = ''PATCH''"
| "http_method r = ''POST''"

text \<open>
  The bearer credential of a request: no Authorization header, a token that does not
  verify, or a token that decodes to a user id.
\<close>

datatype credentials = NoToken | BadToken | Token string

record request =
  req_route :: route
  idempotencyKey :: "string option"
  credentials :: credentials
  req_body :: "(string \<times> json) list"

record cached =
  statusCode :: nat
  cached_body :: body
  timestamp :: time

record sys =
  db :: store
  idempotencyStore :: "string \<rightharpoonup> cached"

text \<open>
  \<open>authenticate\<close>: every failure, also an exception, answers 401. The update of
  \<open>lastLoginAt\<close> on the user is left out.
\<close>

definition authenticate :: "(oid \<rightharpoonup> user) \<Rightarrow> credentials \<Rightarrow> response + user" where
  "authenticate us c =
     (case c of
        NoToken \<Rightarrow> Inl (401, ErrorBody ''NO_TOKEN'')
      | BadToken \<Rightarrow> Inl (401, ErrorBody ''INVALID_TOKEN'')
      | Token i \<Rightarrow>
          (case findById us i of
             Inl e \<Rightarrow> Inl (401, ErrorBody ''INVALID_TOKEN'')
           | Inr None \<Rightarrow> Inl (401, ErrorBody ''INVALID_TOKEN'')
           | Inr (Some u) \<Rightarrow>
               if \<not> u_isActive u then Inl (401, ErrorBody ''INVALID_TOKEN'') else Inr u))"

text \<open>
  The ticket router: \<open>router.use(authenticate)\<close> runs first, then the route. The second
  argument is the id the driver will give to a document created by this request.
\<close>

definition ticketRoutes :: "time \<Rightarrow> oid \<Rightarrow> request \<Rightarrow> store \<Rightarrow> response \<times> store" where
  "ticketRoutes now new_id req s =
     (case authenticate (users s) (credentials req) of
        Inl r \<Rightarrow> (r, s)
      | Inr actor \<Rightarrow>
          (case req_route req of
             PostTicket \<Rightarrow> post_ticket now new_id actor (req_body req) s
           | GetTicket i \<Rightarrow> (get_ticket now actor i s, s)
           | PatchTicket i \<Rightarrow> patch_ticket now actor i (req_body req) s
           | PostComment i \<Rightarrow> post_comment now actor i (req_body req) s
           | PostAssign i \<Rightarrow> post_assign now actor i (req_body req) s
           | PostStatus i \<Rightarrow> post_status now actor i (req_body req) s
           | PostPriority i \<Rightarrow> post_priority now actor i (req_body req) s
           | PostBulkAssign \<Rightarrow> post_bulk_assign now actor (req_body req) s))"

text \<open>
  \<open>idempotencyMiddleware\<close>. Its first argument is \<open>req.user\<close> as the middleware sees it.
  A POST with a non-empty key is answered from the store when the key is known;
  otherwise the rest of the chain runs and the response it sends through \<open>res.json\<close> is
  recorded under the key.
\<close>

definition idempotencyMiddleware ::
  "user option \<Rightarrow> time \<Rightarrow> request \<Rightarrow> (store \<Rightarrow> response \<times> store) \<Rightarrow> sys \<Rightarrow> response \<times> sys" where
  "idempotencyMiddleware req_user now req nxt s =
     (let pass = (let (r, d) = nxt (db s) in (r, s\<lparr>db := d\<rparr>))
      in if http_method (req_route req) \<noteq> ''POST'' then pass
         else (case idempotencyKey req of
                 None \<Rightarrow> pass
               | Some key \<Rightarrow>
                   if key = [] then pass
                   else (let userKey = (case req_user of Some u \<Rightarrow> u_id u | None \<Rightarrow> ''anonymous'');
                             storeKey = userKey @ '':'' @ key
                         in case idempotencyStore s storeKey of
                              Some c \<Rightarrow> ((statusCode c, cached_body c), s)
                            | None \<Rightarrow>
                                (let (r, d) = nxt (db s)
                                 in (r, s\<lparr>db := d,
                                          idempotencyStore := (idempotencyStore s)(storeKey \<mapsto>
                                            \<lparr>statusCode = fst r, cached_body = snd r,
                                             timestamp = now\<rparr>)\<rparr>)))))"

text \<open>
  The application chain: \<open>app.use(idempotencyMiddleware)\<close> is installed before the
  routers, and \<open>authenticate\<close> is installed inside each router. When the idempotency
  middleware runs, nothing has set \<open>req.user\<close> yet.
\<close>

definition app :: "time \<Rightarrow> oid \<Rightarrow> request \<Rightarrow> sys \<Rightarrow> response \<times> sys" where
  "app now new_id req s = idempotencyMiddleware None now req (ticketRoutes now new_id req) s"

text \<open>The hourly sweep: entries older than one day are deleted.\<close>

definition sweep :: "time \<Rightarrow> (string \<rightharpoonup> cached) \<Rightarrow> (string \<rightharpoonup> cached)" where
  "sweep now m =
     (\<lambda>k. case m k of None \<Rightarrow> None
          | Some c \<Rightarrow> if timestamp c < now - 24 * 60 * 60 * 1000 then None else Some c)"

section \<open>Properties of stored tickets used by the theorems\<close>

text \<open>The ticket \<open>t\<close> is the document stored under the id parameter \<open>tid\<close>.\<close>

definition stored_at :: "store \<Rightarrow> string \<Rightarrow> ticket \<Rightarrow> bool" where
  "stored_at s tid t =
     (case parse_oid tid of None \<Rightarrow> False | Some i \<Rightarrow> tickets s i = Some t \<and> t_id t = i)"

text \<open>The stored ticket passes the validators of the schema.\<close>

definition valid_ticket :: "ticket \<Rightarrow> bool" where
  "valid_ticket t = list_all (\<lambda>k. validate_path k t) all_paths"

section \<open>A concrete scenario\<close>

text \<open>
  An administrator, an agent and two users; one urgent ticket filed by the first user at
  \<open>T0\<close>.
\<close>

definition admin_id :: oid where "admin_id = ''aaaaaaaaaaaaaaaaaaaaaaaa''"
definition agent_id :: oid where "agent_id = ''bbbbbbbbbbbbbbbbbbbbbbbb''"
definition owner_id :: oid where "owner_id = ''cccccccccccccccccccccccc''"
definition other_id :: oid where "other_id = ''dddddddddddddddddddddddd''"
definition ticket_id :: oid where "ticket_id = ''111111111111111111111111''"
definition ticket_id2 :: oid where "ticket_id2 = ''222222222222222222222222''"

definition admin :: user where
  "admin = \<lparr>u_id = admin_id, u_name = ''Ann'', u_role = RAdmin, u_isActive = True\<rparr>"

definition agent :: user where
  "agent = \<lparr>u_id = agent_id, u_name = ''Gus'', u_role = RAgent, u_isActive = True\<rparr>"

definition owner :: user where
  "owner = \<lparr>u_id = owner_id, u_name = ''Uma'', u_role = RUser, u_isActive = True\<rparr>"

definition other :: user where
  "other = \<lparr>u_id = other_id, u_name = ''Val'', u_role = RUser, u_isActive = True\<rparr>"

definition directory :: "oid \<rightharpoonup> user" where
  "directory = [admin_id \<mapsto> admin, agent_id \<mapsto> agent, owner_id \<mapsto> owner, other_id \<mapsto> other]"

definition T0 :: time where "T0 = 1700000000000"

definition store0 :: store where
  "store0 = \<lparr>users = directory, tickets = Map.empty, comments = [], timeline = []\<rparr>"

definition urgent_body :: "(string \<times> json) list" where
  "urgent_body = [(''title'', JStr ''Printer on fire''), (''description'', JStr ''Smoke''),
                  (''priority'', JStr ''urgent'')]"

text \<open>The ticket and the store that \<open>post_ticket\<close> leaves for that request.\<close>

definition ticket1 :: ticket where
  "ticket1 =
     \<lparr>t_id = ticket_id, title = Str ''Printer on fire'', description = Str ''Smoke'',
      status = Str ''open'', priority = Str ''urgent'', category = Str ''general'',
      createdBy = owner_id, assignedTo = Undefined,
      sla = \<lparr>responseTime = 2, resolutionTime = 8,
             responseDeadline = Some (T0 + hours 2), resolutionDeadline = Some (T0 + hours 8),
             isResponseBreached = False, isResolutionBreached = False\<rparr>,
      tags = Arr [], version = 0, createdAt = T0, updatedAt = T0,
      firstResponseAt = None, resolvedAt = None, closedAt = None\<rparr>"

definition created_entry :: timeline_entry where
  "created_entry = \<lparr>tl_ticket = ticket_id, tl_user = owner_id, tl_action = ''created'',
                     tl_details = NoDetails, tl_createdAt = T0\<rparr>"

definition store1 :: store where
  "store1 = \<lparr>users = directory, tickets = [ticket_id \<mapsto> ticket1], comments = [],
             timeline = [created_entry]\<rparr>"

text \<open>Neither breach flag is stored as raised.\<close>

definition calm :: "ticket \<Rightarrow> bool" where
  "calm t = (\<not> isResponseBreached (sla t) \<and> \<not> isResolutionBreached (sla t))"

definition all_calm :: "(oid \<rightharpoonup> ticket) \<Rightarrow> bool" where
  "all_calm m = (\<forall>i u. m i = Some u \<longrightarrow> calm u)"

text \<open>
  The stores the service can be in: it starts with some user directory and no tickets,
  comments or timeline entries, and every request to the ticket router takes it from one
  store to the next.
\<close>

inductive reachable :: "store \<Rightarrow> bool" where
  initial: "reachable \<lparr>users = us, tickets = Map.empty, comments = [], timeline = []\<rparr>"
| request: "reachable s \<Longrightarrow> ticketRoutes now new_id req s = (r, s') \<Longrightarrow> reachable s'"

text \<open>
  The shape the schema gives to three paths of a stored ticket: the title is a trimmed
  string, and neither the assignee nor the tags are a plain string.
\<close>

definition well_typed :: "ticket \<Rightarrow> bool" where
  "well_typed t =
     ((case title t of Str x \<Rightarrow> trim x = x | _ \<Rightarrow> True)
      \<and> (case assignedTo t of Str x \<Rightarrow> False | _ \<Rightarrow> True)
      \<and> (case tags t of Str x \<Rightarrow> False | _ \<Rightarrow> True))"




text \<open>
  Every ticket of a collection is stored under its own id, passes the validators and has
  the shape the schema gives it.
\<close>

definition sound :: "(oid \<rightharpoonup> ticket) \<Rightarrow> bool" where
  "sound m = (\<forall>i t. m i = Some t \<longrightarrow> t_id t = i \<and> valid_ticket t \<and> well_typed t)"

text \<open>Requests against that store.\<close>

definition stale_body :: "(string \<times> json) list" where
  "stale_body = [(''version'', JNum 3), (''title'', JStr ''Changed'')]"

definition unversioned_body :: "(string \<times> json) list" where
  "unversioned_body = [(''title'', JStr ''Changed'')]"

definition retitled :: ticket where
  "retitled = ticket1\<lparr>title := Str ''Changed'', updatedAt := T0 + 5, version := 1\<rparr>"


definition low_body :: "(string \<times> json) list" where
  "low_body = [(''priority'', JStr ''low'')]"

definition reprioritised :: ticket where
  "reprioritised = ticket1\<lparr>priority := Str ''low'', updatedAt := T0 + hours 4, version := 1\<rparr>"

definition assign_body :: "(string \<times> json) list" where
  "assign_body = [(''assignedTo'', JStr agent_id)]"

definition assigned :: ticket where
  "assigned = ticket1\<lparr>assignedTo := ObjId agent_id, updatedAt := T0 + 1, version := 1\<rparr>"

definition assigned_entry :: timeline_entry where
  "assigned_entry = \<lparr>tl_ticket = ticket_id, tl_user = admin_id, tl_action = ''assigned'',
                      tl_details = AssigneeChange None (Some ''Gus''), tl_createdAt = T0 + 1\<rparr>"

definition store2 :: store where
  "store2 = \<lparr>users = directory, tickets = [ticket_id \<mapsto> assigned], comments = [],
             timeline = [created_entry, assigned_entry]\<rparr>"

definition same_assignee_entry :: timeline_entry where
  "same_assignee_entry =
     \<lparr>tl_ticket = ticket_id, tl_user = admin_id, tl_action = ''updated'',
      tl_details = FieldChange ''assignedTo'' (ObjId agent_id) (JStr agent_id),
      tl_createdAt = T0 + 9\<rparr>"

text \<open>Two clients that send the same idempotency key.\<close>

definition retry_key :: string where "retry_key = ''retry-1''"

definition other_body :: "(string \<times> json) list" where
  "other_body = [(''title'', JStr ''Badge lost''), (''description'', JStr ''Need a new badge'')]"

definition first_request :: request where
  "first_request = \<lparr>req_route = PostTicket, idempotencyKey = Some retry_key,
                      credentials = Token owner_id, req_body = urgent_body\<rparr>"

definition second_request :: request where
  "second_request = \<lparr>req_route = PostTicket, idempotencyKey = Some retry_key,
                       credentials = Token other_id, req_body = other_body\<rparr>"

definition sys0 :: sys where
  "sys0 = \<lparr>db = store0, idempotencyStore = Map.empty\<rparr>"

definition sys1 :: sys where
  "sys1 = \<lparr>db = store1,
            idempotencyStore = [''anonymous:retry-1'' \<mapsto>
              \<lparr>statusCode = 201, cached_body = TicketBody ticket1, timestamp = T0\<rparr>]\<rparr>"

text \<open>An assignment to the second user, who is neither agent nor admin.\<close>

definition ineligible_body :: "(string \<times> json) list" where
  "ineligible_body = [(''assignedTo'', JStr other_id)]"

definition misassigned :: ticket where
  "misassigned = ticket1\<lparr>assignedTo := ObjId other_id, updatedAt := T0 + 5, version := 1\<rparr>"

text \<open>The agent answers the ticket three hours after it was filed.\<close>

definition comment_body :: "(string \<times> json) list" where
  "comment_body = [(''content'', JStr ''Looking into it'')]"

definition comment1 :: comment where
  "comment1 = \<lparr>c_ticket = ticket_id, c_author = agent_id, c_content = Str ''Looking into it'',
                c_type = Str ''comment'', c_isFirstResponse = True,
                c_createdAt = T0 + hours 3\<rparr>"

definition answered :: ticket where
  "answered = ticket1\<lparr>firstResponseAt := Some (T0 + hours 3), updatedAt := T0 + hours 3,
                       version := 1\<rparr>"

definition commented_entry :: timeline_entry where
  "commented_entry = \<lparr>tl_ticket = ticket_id, tl_user = agent_id, tl_action = ''commented'',
                       tl_details = NoDetails, tl_createdAt = T0 + hours 3\<rparr>"

definition store3 :: store where
  "store3 = \<lparr>users = directory, tickets = [ticket_id \<mapsto> answered], comments = [comment1],
             timeline = [created_entry, commented_entry]\<rparr>"

definition comment_request :: request where
  "comment_request = \<lparr>req_route = PostComment ticket_id, idempotencyKey = None,
                        credentials = Token agent_id, req_body = comment_body\<rparr>"



definition bulk_body :: "(string \<times> json) list" where
  "bulk_body = [(''ticketIds'', JArr [JStr ticket_id]), (''assignedTo'', JStr agent_id)]"

definition bulk_assigned :: ticket where
  "bulk_assigned = ticket1\<lparr>assignedTo := ObjId agent_id\<rparr>"

definition bulk_entry :: timeline_entry where
  "bulk_entry = \<lparr>tl_ticket = ticket_id, tl_user = admin_id, tl_action = ''assigned'',
                  tl_details = BulkAssignee (Some ''Gus''), tl_createdAt = T0 + 6\<rparr>"

section \<open>Evaluation rules\<close>

lemma get_path_simps:
  "get_path ''title'' t = title t"
  "get_path ''description'' t = description t"
  "get_path ''status'' t = status t"
  "get_path ''priority'' t = priority t"
  "get_path ''category'' t = category t"
  "get_path ''assignedTo'' t = assignedTo t"
  "get_path ''tags'' t = tags t"
  by (simp_all add: get_path_def)

lemma put_path_simps:
  "put_path ''title'' v t = t\<lparr>title := v\<rparr>"
  "put_path ''description'' v t = t\<lparr>description := v\<rparr>"
  "put_path ''status'' v t = t\<lparr>status := v\<rparr>"
  "put_path ''priority'' v t = t\<lparr>priority := v\<rparr>"
  "put_path ''category'' v t = t\<lparr>category := v\<rparr>"
  "put_path ''assignedTo'' v t = t\<lparr>assignedTo := v\<rparr>"
  "put_path ''tags'' v t = t\<lparr>tags := v\<rparr>"
  by (simp_all add: put_path_def)

lemma cast_path_simps:
  "cast_path ''title'' j = castTrimmed j"
  "cast_path ''description'' j = castString j"
  "cast_path ''status'' j = castString j"
  "cast_path ''priority'' j = castString j"
  "cast_path ''category'' j = castString j"
  "cast_path ''assignedTo'' j = castObjectId j"
  "cast_path ''tags'' j = castTags j"
  by (simp_all add: cast_path_def)

lemmas path_simps = get_path_simps put_path_simps cast_path_simps

lemma validate_unfold:
  "validate d \<longleftrightarrow>
     castErrors d = [] \<and> required_string 200 (title (cur d))
     \<and> required_string 2000 (description (cur d))
     \<and> enum_ok validStatuses (status (cur d))
     \<and> enum_ok validPriorities (priority (cur d))
     \<and> enum_ok validCategories (category (cur d))"
  by (simp add: validate_def all_paths_def validate_path_def)

lemma valid_ticket_unfold:
  "valid_ticket t \<longleftrightarrow>
     required_string 200 (title t) \<and> required_string 2000 (description t)
     \<and> enum_ok validStatuses (status t) \<and> enum_ok validPriorities (priority t)
     \<and> enum_ok validCategories (category t)"
  by (simp add: valid_ticket_def all_paths_def validate_path_def)

lemma validate_loaded: "validate (loaded t) = valid_ticket t"
  by (simp add: validate_def loaded_def valid_ticket_def)

lemma findById_stored: "stored_at s tid t \<Longrightarrow> findById (tickets s) tid = Inr (Some t)"
  by (auto simp: stored_at_def findById_def split: option.splits)


subsection \<open>What \<open>save\<close> does to a loaded document\<close>

lemma pre_save_unmodified:
  "\<not> isNew d \<Longrightarrow> modifiedPaths d = [] \<Longrightarrow> pre_save now d = d"
  by (simp add: pre_save_def isModified_def isModifiedPath_def)

lemma save_unmodified:
  "validate d \<Longrightarrow> \<not> isNew d \<Longrightarrow> modifiedPaths d = [] \<Longrightarrow> save now d m = Inr (cur d, m)"
  by (simp add: save_def pre_save_unmodified isModified_def)

lemma save_modified_plain:
  "validate d \<Longrightarrow> \<not> isNew d \<Longrightarrow> modifiedPaths d \<noteq> []
   \<Longrightarrow> ''status'' \<notin> set (modifiedPaths d)
   \<Longrightarrow> save now d m =
         Inr ((cur d)\<lparr>updatedAt := now, version := version (cur d) + 1\<rparr>,
              m(t_id (cur d) \<mapsto> (cur d)\<lparr>updatedAt := now, version := version (cur d) + 1\<rparr>))"
  by (simp add: save_def pre_save_def isModified_def isModifiedPath_def Let_def)

lemma save_invalid: "\<not> validate d \<Longrightarrow> save now d m = Inl ValidationError"
  by (simp add: save_def)

subsection \<open>The scenario\<close>

lemmas ids = admin_id_def agent_id_def owner_id_def other_id_def ticket_id_def ticket_id2_def

lemma parse_ids:
  "parse_oid admin_id = Some admin_id" "parse_oid agent_id = Some agent_id"
  "parse_oid owner_id = Some owner_id" "parse_oid other_id = Some other_id"
  "parse_oid ticket_id = Some ticket_id" "parse_oid ticket_id2 = Some ticket_id2"
  by (simp_all add: ids parse_oid_def is_hex_def lower_hex_def)

lemma distinct_ids:
  "distinct [admin_id, agent_id, owner_id, other_id]" "ticket_id \<noteq> ticket_id2"
  by (simp_all add: ids)

lemma trim_examples:
  "trim ''Printer on fire'' = ''Printer on fire''" "trim ''Changed'' = ''Changed''"
  by (simp_all add: trim_def is_space_def)

lemma valid_ticket1: "valid_ticket ticket1"
  by (simp add: valid_ticket_unfold ticket1_def required_string_def enum_ok_def
      validStatuses_def validPriorities_def validCategories_def)

lemma stored_at_store1: "stored_at store1 ticket_id ticket1"
  by (simp add: stored_at_def parse_ids store1_def ticket1_def)

text \<open>The scenario's store is what the creation route produces.\<close>

lemma store1_created:
  "post_ticket T0 ticket_id owner urgent_body store0 = ((201, TicketBody ticket1), store1)"
  by (simp add: post_ticket_def Ticket_create_def blank_ticket_def sla_defaults_def
      responseTimeDefault_def resolutionTimeDefault_def urgent_body_def store0_def store1_def
      ticket1_def created_entry_def createTimelineEntry_def truthy_def or_else_def
      path_simps castTrimmed_def loaded_def doc_set_def isModified_def isModifiedPath_def
      pre_save_def validate_unfold required_string_def enum_ok_def validStatuses_def
      validPriorities_def validCategories_def save_def owner_def Let_def trim_examples)

lemma retitled_eval:
  "patch_ticket (T0 + 5) agent ticket_id unversioned_body store1 =
     ((200, TicketBody retitled),
      store1\<lparr>tickets := [ticket_id \<mapsto> retitled],
             timeline := [created_entry,
               \<lparr>tl_ticket = ticket_id, tl_user = agent_id, tl_action = ''updated'',
                tl_details = FieldChange ''title'' (Str ''Printer on fire'') (JStr ''Changed''),
                tl_createdAt = T0 + 5\<rparr>]\<rparr>)"
proof -
  let ?d = "doc_set ''title'' (JStr ''Changed'') (loaded ticket1)"
  have d: "?d = \<lparr>cur = ticket1\<lparr>title := Str ''Changed''\<rparr>, isNew = False,
                 modifiedPaths = [''title''], castErrors = []\<rparr>"
    by (simp add: doc_set_def path_simps castTrimmed_def trim_examples loaded_def ticket1_def)
  have v: "validate ?d"
    using valid_ticket1 unfolding d
    by (simp add: validate_unfold valid_ticket_unfold required_string_def)
  have sv: "save (T0 + 5) ?d (tickets store1) = Inr (retitled, [ticket_id \<mapsto> retitled])"
    using save_modified_plain [OF v, of "T0 + 5" "tickets store1"] unfolding d
    by (simp add: store1_def ticket1_def retitled_def)
  show ?thesis
    by (simp add: patch_ticket_def unversioned_body_def findById_stored [OF stored_at_store1]
        stale_def agent_def isAgentOrAdmin_def allowedFields_def sv createTimelineEntry_def
        path_simps)
       (simp add: store1_def ticket1_def retitled_def)
qed

section \<open>Optimistic locking in the update route\<close>

text \<open>
  C2. For every update request that supplies a version differing from the version of the
  stored ticket, the route answers 409 STALE_UPDATE and leaves the whole store as it
  was: the ticket is the same after the call as before, and no timeline entry is added.
\<close>

theorem stale_update_rejected:
  assumes "stored_at s tid t"
      and "map_of b ''version'' = Some v"
      and "v \<noteq> JNum (version t)"
  shows "patch_ticket now actor tid b s = ((409, ErrorBody ''STALE_UPDATE''), s)"
  using assms by (simp add: patch_ticket_def findById_stored stale_def)

theorem stale_update_rejected_witness:
  "stored_at store1 ticket_id ticket1
   \<and> map_of stale_body ''version'' = Some (JNum 3)
   \<and> JNum 3 \<noteq> JNum (version ticket1)
   \<and> patch_ticket (T0 + 5) agent ticket_id stale_body store1
       = ((409, ErrorBody ''STALE_UPDATE''), store1)"
proof -
  have 1: "stored_at store1 ticket_id ticket1" by (rule stored_at_store1)
  have 2: "map_of stale_body ''version'' = Some (JNum 3)" by (simp add: stale_body_def)
  have 3: "JNum 3 \<noteq> JNum (version ticket1)" by (simp add: ticket1_def)
  from stale_update_rejected [OF 1 2 3] 1 2 3 show ?thesis by blast
qed

text \<open>
  C5, as stated, fails: an update request that leaves the version field out is not
  rejected. Here the agent renames the ticket without presenting a version; the route
  answers 200 and the stored ticket has the new title and version 1.
\<close>

theorem unversioned_update_counterexample:
  "stored_at store1 ticket_id ticket1
   \<and> map_of unversioned_body ''version'' = None
   \<and> fst (patch_ticket (T0 + 5) agent ticket_id unversioned_body store1) = (200, TicketBody retitled)
   \<and> tickets (snd (patch_ticket (T0 + 5) agent ticket_id unversioned_body store1)) ticket_id
       = Some retitled
   \<and> title retitled \<noteq> title ticket1
   \<and> version retitled = version ticket1 + 1"
proof -
  have "title retitled \<noteq> title ticket1" and "version retitled = version ticket1 + 1"
    by (simp_all add: retitled_def ticket1_def)
  moreover have "map_of unversioned_body ''version'' = None"
    by (simp add: unversioned_body_def)
  ultimately show ?thesis
    unfolding retitled_eval using stored_at_store1 by simp
qed

text \<open>
  C5, amended. On an existing ticket the update route answers STALE_UPDATE exactly when
  the request presents a version and that version is not the stored one, and then it
  writes nothing. A request without a version field is never answered STALE_UPDATE.
\<close>

theorem version_check_iff:
  assumes "stored_at s tid t"
  shows "(fst (patch_ticket now actor tid b s) = (409, ErrorBody ''STALE_UPDATE'')
           \<longleftrightarrow> (\<exists>v. map_of b ''version'' = Some v \<and> v \<noteq> JNum (version t)))
         \<and> (fst (patch_ticket now actor tid b s) = (409, ErrorBody ''STALE_UPDATE'')
           \<longrightarrow> snd (patch_ticket now actor tid b s) = s)"
  using assms
  by (auto simp: patch_ticket_def findById_stored stale_def Let_def errorHandler_def
           split: sum.splits exn.splits prod.splits)

theorem version_check_iff_witness:
  "stored_at store1 ticket_id ticket1
   \<and> fst (patch_ticket (T0 + 5) agent ticket_id stale_body store1) = (409, ErrorBody ''STALE_UPDATE'')
   \<and> snd (patch_ticket (T0 + 5) agent ticket_id stale_body store1) = store1
   \<and> fst (patch_ticket (T0 + 5) agent ticket_id unversioned_body store1)
       \<noteq> (409, ErrorBody ''STALE_UPDATE'')"
proof -
  have 1: "stored_at store1 ticket_id ticket1" by (rule stored_at_store1)
  have 2: "\<exists>v. map_of stale_body ''version'' = Some v \<and> v \<noteq> JNum (version ticket1)"
    by (simp add: stale_body_def ticket1_def)
  have 3: "\<not> (\<exists>v. map_of unversioned_body ''version'' = Some v \<and> v \<noteq> JNum (version ticket1))"
    by (simp add: unversioned_body_def)
  from version_check_iff [OF 1, of "T0 + 5" agent stale_body]
       version_check_iff [OF 1, of "T0 + 5" agent unversioned_body] 1 2 3
  show ?thesis by blast
qed

section \<open>Frame facts about documents, saving and the timeline\<close>

lemma doc_set_frame:
  "isNew (doc_set k v d) = isNew d"
  "t_id (cur (doc_set k v d)) = t_id (cur d)"
  "sla (cur (doc_set k v d)) = sla (cur d)"
  "version (cur (doc_set k v d)) = version (cur d)"
  "createdBy (cur (doc_set k v d)) = createdBy (cur d)"
  "firstResponseAt (cur (doc_set k v d)) = firstResponseAt (cur d)"
  "set (modifiedPaths (doc_set k v d)) \<subseteq> insert k (set (modifiedPaths d))"
  by (auto simp: doc_set_def put_path_def split: option.splits)


lemma fold_doc_set_frame:
  "isNew (fold (\<lambda>(k, v). doc_set k v) us d) = isNew d"
  "t_id (cur (fold (\<lambda>(k, v). doc_set k v) us d)) = t_id (cur d)"
  "sla (cur (fold (\<lambda>(k, v). doc_set k v) us d)) = sla (cur d)"
  "version (cur (fold (\<lambda>(k, v). doc_set k v) us d)) = version (cur d)"
  "createdBy (cur (fold (\<lambda>(k, v). doc_set k v) us d)) = createdBy (cur d)"
  "firstResponseAt (cur (fold (\<lambda>(k, v). doc_set k v) us d)) = firstResponseAt (cur d)"
  by (induction us arbitrary: d; simp add: doc_set_frame split: prod.splits)+

lemma fold_doc_set_modified:
  "set (modifiedPaths (fold (\<lambda>(k, v). doc_set k v) us d)) \<subseteq> fst ` set us \<union> set (modifiedPaths d)"
proof (induction us arbitrary: d)
  case Nil
  then show ?case by simp
next
  case (Cons u us)
  obtain k v where u: "u = (k, v)" by (cases u)
  from Cons [of "doc_set k v d"] doc_set_frame(7) [of k v d] show ?case
    by (auto simp: u)
qed


lemma pre_save_frame:
  "t_id (cur (pre_save now d)) = t_id (cur d)"
  "status (cur (pre_save now d)) = status (cur d)"
  "createdBy (cur (pre_save now d)) = createdBy (cur d)"
  "isNew (pre_save now d) = isNew d"
  "modifiedPaths (pre_save now d) = modifiedPaths d"
  by (simp_all add: pre_save_def Let_def)

lemma save_result:
  "save now d m = Inr (t', m') \<Longrightarrow>
     validate d \<and> t' = cur (pre_save now d) \<and> (m' = m \<or> m' = m(t_id (cur d) \<mapsto> t'))"
  by (auto simp: save_def Let_def pre_save_frame split: if_splits)

lemma fold_entries_frame:
  assumes "\<And>x st. tickets (f x st) = tickets st"
  shows "tickets (fold f xs s) = tickets s"
  using assms by (induction xs arbitrary: s) auto

lemma createTimelineEntry_frame:
  "tickets (createTimelineEntry now i u a dt s) = tickets s"
  "users (createTimelineEntry now i u a dt s) = users s"
  "comments (createTimelineEntry now i u a dt s) = comments s"
  by (simp_all add: createTimelineEntry_def)



lemma patch_ticket_authorised:
  assumes "stored_at s tid t" and "\<not> stale (map_of b ''version'') t"
      and "createdBy t = u_id actor \<or> isAgentOrAdmin actor"
  shows "patch_ticket now actor tid b s =
     (let filteredUpdates = filter (\<lambda>(k, v). k \<in> set (allowedFields actor))
                              (filter (\<lambda>(k, v). k \<noteq> ''version'') b)
      in case save now (fold (\<lambda>(k, v). doc_set k v) filteredUpdates (loaded t)) (tickets s) of
           Inl e \<Rightarrow> (errorHandler e, s)
         | Inr (t', m) \<Rightarrow>
             ((200, TicketBody t'),
              fold (\<lambda>(k, v). createTimelineEntry now (t_id t') (u_id actor) ''updated''
                      (FieldChange k (get_path k t) v))
                (filter (\<lambda>(k, v). \<not> strict_eq (get_path k t) v) filteredUpdates)
                (s\<lparr>tickets := m\<rparr>)))"
  using assms
  by (auto simp del: filter_filter simp add: patch_ticket_def findById_stored Let_def)

lemma nonempty_ids:
  "admin_id \<noteq> []" "agent_id \<noteq> []" "owner_id \<noteq> []" "other_id \<noteq> []"
  "ticket_id \<noteq> []" "ticket_id2 \<noteq> []"
  by (simp_all add: ids)

lemma directory_lookup:
  "directory admin_id = Some admin" "directory agent_id = Some agent"
  "directory owner_id = Some owner" "directory other_id = Some other"
  using distinct_ids by (simp_all add: directory_def)

section \<open>What a user may change on an own ticket\<close>







section \<open>Priority changes and the SLA deadlines\<close>

lemma reprioritised_eval:
  "post_priority (T0 + hours 4) agent ticket_id low_body store1 =
     ((200, TicketBody reprioritised),
      store1\<lparr>tickets := [ticket_id \<mapsto> reprioritised],
             timeline := [created_entry,
               \<lparr>tl_ticket = ticket_id, tl_user = agent_id, tl_action = ''priority_changed'',
                tl_details = PriorityChange (Str ''urgent'') ''low'',
                tl_createdAt = T0 + hours 4\<rparr>]\<rparr>)"
proof -
  let ?d = "doc_set ''priority'' (JStr ''low'') (loaded ticket1)"
  have d: "?d = \<lparr>cur = ticket1\<lparr>priority := Str ''low''\<rparr>, isNew = False,
                 modifiedPaths = [''priority''], castErrors = []\<rparr>"
    by (simp add: doc_set_def path_simps loaded_def ticket1_def)
  have v: "validate ?d"
    using valid_ticket1 unfolding d
    by (simp add: validate_unfold valid_ticket_unfold enum_ok_def validPriorities_def)
  have sv: "save (T0 + hours 4) ?d (tickets store1)
              = Inr (reprioritised, [ticket_id \<mapsto> reprioritised])"
    using save_modified_plain [OF v, of "T0 + hours 4" "tickets store1"] unfolding d
    by (simp add: store1_def ticket1_def reprioritised_def)
  show ?thesis
    by (simp add: post_priority_def low_body_def listed_def validPriorities_def authorize_def
        agent_def findById_stored [OF stored_at_store1] sv createTimelineEntry_def)
       (simp add: store1_def ticket1_def reprioritised_def)
qed

text \<open>
  C3 does not hold on the code. The ticket was filed as urgent at \<open>T0\<close>, so its deadlines
  are \<open>T0 + 2h\<close> and \<open>T0 + 8h\<close>. Four hours later the agent sets the priority to low. The
  route answers 200 and stores the new priority, but both deadlines stay where they were:
  the pre-save hook writes them for a new document only. The claim asks for
  \<open>(T0 + 4h) + 48h\<close> and \<open>(T0 + 4h) + 168h\<close>.
\<close>

theorem priority_change_keeps_deadlines:
  "responseDeadline (sla ticket1) = Some (T0 + hours 2)
   \<and> resolutionDeadline (sla ticket1) = Some (T0 + hours 8)
   \<and> fst (post_priority (T0 + hours 4) agent ticket_id low_body store1) = (200, TicketBody reprioritised)
   \<and> tickets (snd (post_priority (T0 + hours 4) agent ticket_id low_body store1)) ticket_id
       = Some reprioritised
   \<and> priority reprioritised = Str ''low''
   \<and> responseDeadline (sla reprioritised) = Some (T0 + hours 2)
   \<and> resolutionDeadline (sla reprioritised) = Some (T0 + hours 8)
   \<and> responseDeadline (sla reprioritised) \<noteq> Some ((T0 + hours 4) + hours 48)
   \<and> resolutionDeadline (sla reprioritised) \<noteq> Some ((T0 + hours 4) + hours 168)"
  unfolding reprioritised_eval
  by (simp add: reprioritised_def ticket1_def hours_def)

section \<open>Updates that repeat the current values\<close>

lemma stored_at_store2: "stored_at store2 ticket_id assigned"
  by (simp add: stored_at_def parse_ids store2_def assigned_def ticket1_def)

lemma valid_assigned: "valid_ticket assigned"
  using valid_ticket1 by (simp add: valid_ticket_unfold assigned_def)

lemma store2_assigned:
  "post_assign (T0 + 1) admin ticket_id assign_body store1 = ((200, TicketBody assigned), store2)"
proof -
  let ?d = "doc_set ''assignedTo'' (JStr agent_id) (loaded ticket1)"
  have d: "?d = \<lparr>cur = ticket1\<lparr>assignedTo := ObjId agent_id\<rparr>, isNew = False,
                 modifiedPaths = [''assignedTo''], castErrors = []\<rparr>"
    by (simp add: doc_set_def path_simps parse_ids loaded_def ticket1_def)
  have v: "validate ?d"
    using valid_ticket1 unfolding d by (simp add: validate_unfold valid_ticket_unfold)
  have sv: "save (T0 + 1) ?d (tickets store1) = Inr (assigned, [ticket_id \<mapsto> assigned])"
    using save_modified_plain [OF v, of "T0 + 1" "tickets store1"] unfolding d
    by (simp add: store1_def ticket1_def assigned_def)
  have lk: "lookup_assignee (users store1) (Some (JStr agent_id)) = Inr (Some agent)"
    by (simp add: lookup_assignee_def findUser_def parse_ids store1_def directory_lookup nonempty_ids)
  show ?thesis
    by (simp add: post_assign_def assign_body_def authorize_def admin_def
        findById_stored [OF stored_at_store1] truthy_def or_else_def nonempty_ids lk
        not_eligible_def sv createTimelineEntry_def findUserRef_def)
       (simp add: store1_def store2_def ticket1_def assigned_def assigned_entry_def agent_def)
qed


text \<open>
  C10 does not hold on the code. The ticket is assigned to the agent; the administrator
  sends an update whose only field is \<open>assignedTo\<close> with the id of that same agent. The
  route answers 200 and the stored ticket keeps its version and \<open>updatedAt\<close>, but a
  timeline entry is written: the comparison \<open>ticket[key] !== value\<close> is between an
  ObjectId and a string and is always true.
\<close>

theorem same_assignee_logged:
  "assignedTo assigned = ObjId agent_id
   \<and> castObjectId (JStr agent_id) = Some (assignedTo assigned)
   \<and> patch_ticket (T0 + 9) admin ticket_id assign_body store2
       = ((200, TicketBody assigned), store2\<lparr>timeline := timeline store2 @ [same_assignee_entry]\<rparr>)
   \<and> tickets (snd (patch_ticket (T0 + 9) admin ticket_id assign_body store2)) = tickets store2
   \<and> timeline (snd (patch_ticket (T0 + 9) admin ticket_id assign_body store2)) \<noteq> timeline store2"
proof -
  let ?d = "doc_set ''assignedTo'' (JStr agent_id) (loaded assigned)"
  have d: "?d = loaded assigned"
    by (simp add: doc_set_def path_simps parse_ids loaded_def assigned_def)
  have v: "validate (loaded assigned)" using valid_assigned by (simp add: validate_loaded)
  have "save (T0 + 9) (loaded assigned) (tickets store2) = Inr (cur (loaded assigned), tickets store2)"
    by (rule save_unmodified [OF v]) (simp_all add: loaded_def)
  then have sv: "save (T0 + 9) ?d (tickets store2) = Inr (assigned, tickets store2)"
    unfolding d by (simp add: loaded_def)
  have ns: "\<not> stale (map_of assign_body ''version'') assigned"
    by (simp add: stale_def assign_body_def)
  have ow: "createdBy assigned = u_id admin \<or> isAgentOrAdmin admin"
    by (simp add: isAgentOrAdmin_def admin_def)
  have e: "patch_ticket (T0 + 9) admin ticket_id assign_body store2
       = ((200, TicketBody assigned), store2\<lparr>timeline := timeline store2 @ [same_assignee_entry]\<rparr>)"
    unfolding patch_ticket_authorised [OF stored_at_store2 ns ow]
    by (simp add: assign_body_def allowedFields_def isAgentOrAdmin_def admin_def sv path_simps
        createTimelineEntry_def same_assignee_entry_def)
       (simp add: assigned_def ticket1_def)
  show ?thesis
    unfolding e by (simp add: assigned_def parse_ids)
qed

section \<open>The idempotency store\<close>

lemma authenticate_directory:
  "authenticate directory (Token owner_id) = Inr owner"
  "authenticate directory (Token other_id) = Inr other"
  "authenticate directory (Token admin_id) = Inr admin"
  "authenticate directory (Token agent_id) = Inr agent"
  by (simp_all add: authenticate_def findById_def parse_ids directory_lookup)
     (simp_all add: owner_def other_def admin_def agent_def)

lemma first_request_routed:
  "ticketRoutes T0 ticket_id first_request store0 = ((201, TicketBody ticket1), store1)"
proof -
  have "users store0 = directory" by (simp add: store0_def)
  then show ?thesis
    by (simp add: ticketRoutes_def first_request_def authenticate_directory store1_created)
qed

text \<open>
  C4 does not hold on the code. Two different users send a creation request with the
  same idempotency key. The first request creates the first user's ticket and its
  response is recorded under \<open>anonymous:retry-1\<close>: the key is built before
  \<open>authenticate\<close> has set \<open>req.user\<close>. The second user's request, with another body, is
  answered with the first user's ticket, and nothing is created for the second user.
\<close>

theorem idempotency_key_shared:
  "credentials first_request = Token owner_id
   \<and> credentials second_request = Token other_id
   \<and> owner_id \<noteq> other_id
   \<and> idempotencyKey first_request = idempotencyKey second_request
   \<and> req_body first_request \<noteq> req_body second_request
   \<and> app T0 ticket_id first_request sys0 = ((201, TicketBody ticket1), sys1)
   \<and> app (T0 + 7) ticket_id2 second_request sys1 = ((201, TicketBody ticket1), sys1)
   \<and> createdBy ticket1 = owner_id"
proof -
  have k: "http_method (req_route first_request) = ''POST''"
          "idempotencyKey first_request = Some ''retry-1''"
    by (simp_all add: first_request_def retry_key_def)
  have a: "app T0 ticket_id first_request sys0 = ((201, TicketBody ticket1), sys1)"
    by (simp add: app_def idempotencyMiddleware_def Let_def sys0_def k first_request_routed
        sys1_def)
  have b: "app (T0 + 7) ticket_id2 second_request sys1 = ((201, TicketBody ticket1), sys1)"
    by (simp add: app_def idempotencyMiddleware_def Let_def second_request_def retry_key_def
        sys1_def)
  have c: "owner_id \<noteq> other_id" using distinct_ids by simp
  show ?thesis
    unfolding a b using c
    by (simp add: first_request_def second_request_def urgent_body_def other_body_def ticket1_def)
qed

section \<open>Who may be made the assignee\<close>






text \<open>
  The update route has no such check: the same assignment sent by an administrator as an
  update is stored.
\<close>

lemma patch_assigns_ineligible:
  "patch_ticket (T0 + 5) admin ticket_id ineligible_body store1 =
     ((200, TicketBody misassigned),
      store1\<lparr>tickets := [ticket_id \<mapsto> misassigned],
             timeline := [created_entry,
               \<lparr>tl_ticket = ticket_id, tl_user = admin_id, tl_action = ''updated'',
                tl_details = FieldChange ''assignedTo'' Undefined (JStr other_id),
                tl_createdAt = T0 + 5\<rparr>]\<rparr>)"
proof -
  let ?d = "doc_set ''assignedTo'' (JStr other_id) (loaded ticket1)"
  have d: "?d = \<lparr>cur = ticket1\<lparr>assignedTo := ObjId other_id\<rparr>, isNew = False,
                 modifiedPaths = [''assignedTo''], castErrors = []\<rparr>"
    by (simp add: doc_set_def path_simps parse_ids loaded_def ticket1_def)
  have v: "validate ?d"
    using valid_ticket1 unfolding d by (simp add: validate_unfold valid_ticket_unfold)
  have sv: "save (T0 + 5) ?d (tickets store1) = Inr (misassigned, [ticket_id \<mapsto> misassigned])"
    using save_modified_plain [OF v, of "T0 + 5" "tickets store1"] unfolding d
    by (simp add: store1_def ticket1_def misassigned_def)
  have ns: "\<not> stale (map_of ineligible_body ''version'') ticket1"
    by (simp add: stale_def ineligible_body_def)
  have ow: "createdBy ticket1 = u_id admin \<or> isAgentOrAdmin admin"
    by (simp add: isAgentOrAdmin_def admin_def)
  show ?thesis
    unfolding patch_ticket_authorised [OF stored_at_store1 ns ow]
    by (simp add: ineligible_body_def allowedFields_def isAgentOrAdmin_def admin_def sv
        path_simps createTimelineEntry_def)
       (simp add: store1_def ticket1_def misassigned_def)
qed

section \<open>The first response\<close>






lemma save_first_response:
  assumes "valid_ticket t"
  shows "save now (set_firstResponseAt now (loaded t)) m =
           (if firstResponseAt t = Some now then Inr (t, m)
            else Inr (t\<lparr>firstResponseAt := Some now, updatedAt := now, version := version t + 1\<rparr>,
                      m(t_id t \<mapsto> t\<lparr>firstResponseAt := Some now, updatedAt := now,
                                       version := version t + 1\<rparr>)))"
proof (cases "firstResponseAt t = Some now")
  case True
  then have d: "set_firstResponseAt now (loaded t) = loaded t"
    by (simp add: set_firstResponseAt_def loaded_def)
  have "validate (loaded t)" using assms by (simp add: validate_loaded)
  then have "save now (loaded t) m = Inr (cur (loaded t), m)"
    by (rule save_unmodified) (simp_all add: loaded_def)
  with True d show ?thesis by (simp add: loaded_def)
next
  case False
  let ?d = "set_firstResponseAt now (loaded t)"
  have d: "?d = \<lparr>cur = t\<lparr>firstResponseAt := Some now\<rparr>, isNew = False,
                 modifiedPaths = [''firstResponseAt''], castErrors = []\<rparr>"
    using False by (simp add: set_firstResponseAt_def loaded_def)
  have v: "validate ?d"
    using assms unfolding d by (simp add: validate_unfold valid_ticket_unfold)
  from save_modified_plain [OF v, of now m] False show ?thesis
    unfolding d by simp
qed

lemma post_comment_found:
  assumes "stored_at s tid t"
  shows "post_comment now actor tid b s =
     (let content = map_of b ''content'';
          ty = (case map_of b ''type'' of None \<Rightarrow> JStr ''comment'' | Some j \<Rightarrow> j);
          isFirstResponse = (existingComments (t_id t) (comments s) = 0 \<and> ty = JStr ''comment'')
      in if \<not> truthy content then ((400, ErrorBody ''FIELD_REQUIRED''), s)
         else if createdBy t \<noteq> u_id actor \<and> \<not> isAgentOrAdmin actor
         then ((403, ErrorBody ''FORBIDDEN''), s)
         else if ty = JStr ''internal_note'' \<and> u_role actor = RUser
         then ((403, ErrorBody ''FORBIDDEN''), s)
         else (case Comment_create now (t_id t) (u_id actor) (the content) ty isFirstResponse of
                 Inl e \<Rightarrow> (errorHandler e, s)
               | Inr c \<Rightarrow>
                   (case (if isFirstResponse
                          then save now (set_firstResponseAt now (loaded t)) (tickets s)
                          else Inr (t, tickets s)) of
                      Inl e \<Rightarrow> (errorHandler e, s\<lparr>comments := comments s @ [c]\<rparr>)
                    | Inr (t', m) \<Rightarrow>
                        ((201, CommentBody c),
                         createTimelineEntry now (t_id t) (u_id actor) ''commented'' NoDetails
                           (s\<lparr>comments := comments s @ [c], tickets := m\<rparr>)))))"
  using assms by (simp add: post_comment_def findById_stored Let_def split: sum.splits)



lemma ticket1_fields:
  "t_id ticket1 = ticket_id" "createdBy ticket1 = owner_id" "version ticket1 = 0"
  "firstResponseAt ticket1 = None" "resolvedAt ticket1 = None"
  by (simp_all add: ticket1_def)

lemma store1_fields:
  "users store1 = directory" "tickets store1 = [ticket_id \<mapsto> ticket1]"
  "comments store1 = []" "timeline store1 = [created_entry]"
  by (simp_all add: store1_def)

lemma first_comment_eval:
  "post_comment (T0 + hours 3) agent ticket_id comment_body store1 = ((201, CommentBody comment1), store3)"
proof -
  have cc: "Comment_create (T0 + hours 3) ticket_id agent_id (JStr ''Looking into it'') (JStr ''comment'') True
              = Inr comment1"
    by (simp add: Comment_create_def required_string_def enum_ok_def comment1_def)
  have nf: "firstResponseAt ticket1 \<noteq> Some (T0 + hours 3)" by (simp add: ticket1_def)
  have sv: "save (T0 + hours 3) (set_firstResponseAt (T0 + hours 3) (loaded ticket1)) (tickets store1)
              = Inr (answered, [ticket_id \<mapsto> answered])"
    using nf unfolding save_first_response [OF valid_ticket1]
    by (simp add: answered_def store1_def ticket1_def)
  show ?thesis
    unfolding post_comment_found [OF stored_at_store1]
    by (simp add: comment_body_def truthy_def isAgentOrAdmin_def agent_def existingComments_def
        ticket1_fields store1_fields(3) cc sv createTimelineEntry_def)
       (simp add: store1_def store3_def ticket1_def commented_entry_def)
qed



text \<open>
  No other route writes the comment collection, so the comments stored for a ticket are
  exactly those the comment route appended, in the order of the requests.
\<close>

lemma fold_entries_comments:
  assumes "\<And>x st. comments (f x st) = comments st"
  shows "comments (fold f xs s) = comments s"
  using assms by (induction xs arbitrary: s) auto

lemma fold_bulk_entries_comments:
  "comments (fold (\<lambda>i st. if P i then createTimelineEntry now i u a dt st else st) ids s) = comments s"
  by (induction ids arbitrary: s) (simp_all add: createTimelineEntry_frame)

lemma other_routes_keep_comments:
  "comments (snd (post_ticket now new_id actor b s)) = comments s"
  "comments (snd (patch_ticket now actor tid b s)) = comments s"
  "comments (snd (post_assign now actor tid b s)) = comments s"
  "comments (snd (post_status now actor tid b s)) = comments s"
  "comments (snd (post_priority now actor tid b s)) = comments s"
  "comments (snd (post_bulk_assign now actor b s)) = comments s"
proof -
  show "comments (snd (post_ticket now new_id actor b s)) = comments s"
    by (auto simp: post_ticket_def Let_def createTimelineEntry_frame split: sum.splits prod.splits)
  show "comments (snd (patch_ticket now actor tid b s)) = comments s"
    by (auto simp: patch_ticket_def Let_def createTimelineEntry_frame fold_entries_comments
             simp del: filter_filter split: sum.splits option.splits prod.splits)
  show "comments (snd (post_assign now actor tid b s)) = comments s"
    by (auto simp: post_assign_def Let_def createTimelineEntry_frame
             split: sum.splits option.splits prod.splits)
  show "comments (snd (post_status now actor tid b s)) = comments s"
    by (auto simp: post_status_def Let_def createTimelineEntry_frame
             split: sum.splits option.splits prod.splits)
  show "comments (snd (post_priority now actor tid b s)) = comments s"
    by (auto simp: post_priority_def Let_def createTimelineEntry_frame
             split: sum.splits option.splits prod.splits)
  show "comments (snd (post_bulk_assign now actor b s)) = comments s"
    by (auto simp: post_bulk_assign_def Let_def fold_bulk_entries_comments
             split: sum.splits option.splits prod.splits json.splits)
qed

section \<open>The breach check\<close>

subsection \<open>No route stores a raised breach flag\<close>

lemma pre_save_calm: "calm (cur (pre_save now d)) = calm (cur d)"
  by (simp add: pre_save_def calm_def Let_def)

lemma save_calm:
  assumes "save now d m = Inr (t', m')" and "calm (cur d)" and "all_calm m"
  shows "calm t' \<and> all_calm m'"
proof -
  from save_result [OF assms(1)]
  have t': "t' = cur (pre_save now d)" and m': "m' = m \<or> m' = m(t_id (cur d) \<mapsto> t')" by auto
  have "calm t'" using assms(2) by (simp add: t' pre_save_calm)
  with m' assms(3) show ?thesis by (auto simp: all_calm_def split: if_splits)
qed

lemma doc_set_calm: "calm (cur (doc_set k v d)) = calm (cur d)"
  by (simp add: calm_def doc_set_frame)

lemma fold_doc_set_calm: "calm (cur (fold (\<lambda>(k, v). doc_set k v) us d)) = calm (cur d)"
  by (simp add: calm_def fold_doc_set_frame)

lemma set_firstResponseAt_calm: "calm (cur (set_firstResponseAt now d)) = calm (cur d)"
  by (simp add: calm_def set_firstResponseAt_def)

lemma Ticket_create_calm:
  assumes "Ticket_create now new_id given creator m = Inr (t', m')" and "all_calm m"
  shows "all_calm m'"
proof -
  let ?d0 = "\<lparr>cur = blank_ticket new_id now creator, isNew = True, modifiedPaths = [], castErrors = []\<rparr>"
  let ?d1 = "fold (\<lambda>(k, v). doc_set k v) given ?d0"
  let ?d2 = "?d1\<lparr>cur := sla_defaults (cur ?d1)\<rparr>"
  have sv: "save now ?d2 m = Inr (t', m')" using assms(1) by (simp add: Ticket_create_def Let_def)
  have "calm (cur ?d1)" by (simp add: fold_doc_set_calm) (simp add: calm_def blank_ticket_def)
  then have "calm (cur ?d2)" by (simp add: calm_def sla_defaults_def)
  from save_calm [OF sv this assms(2)] show ?thesis by simp
qed

lemma updateMany_calm: "all_calm m \<Longrightarrow> all_calm (updateMany_assignedTo ids v m)"
  by (auto simp: all_calm_def updateMany_assignedTo_def calm_def split: if_splits)

lemma all_calm_loaded: "all_calm m \<Longrightarrow> m i = Some t \<Longrightarrow> calm (cur (loaded t))"
  by (auto simp: all_calm_def loaded_def)

lemma post_status_calm:
  assumes "post_status now actor tid b s = (r, s')" and "all_calm (tickets s)"
  shows "all_calm (tickets s')"
  using assms
  by (auto simp: post_status_def Let_def createTimelineEntry_frame findById_def doc_set_calm
           split: if_splits option.splits sum.splits prod.splits
           dest!: save_calm dest: all_calm_loaded)


lemma post_priority_calm:
  assumes "post_priority now actor tid b s = (r, s')" and "all_calm (tickets s)"
  shows "all_calm (tickets s')"
  using assms
  by (auto simp: post_priority_def Let_def createTimelineEntry_frame findById_def doc_set_calm
           split: if_splits option.splits sum.splits prod.splits
           dest!: save_calm dest: all_calm_loaded)

lemma post_assign_calm:
  assumes "post_assign now actor tid b s = (r, s')" and "all_calm (tickets s)"
  shows "all_calm (tickets s')"
  using assms
  by (auto simp: post_assign_def Let_def createTimelineEntry_frame findById_def doc_set_calm
           split: if_splits option.splits sum.splits prod.splits
           dest!: save_calm dest: all_calm_loaded)

lemma patch_ticket_calm:
  assumes "patch_ticket now actor tid b s = (r, s')" and "all_calm (tickets s)"
  shows "all_calm (tickets s')"
  using assms
  by (auto simp: patch_ticket_def Let_def createTimelineEntry_frame fold_entries_frame
                 findById_def fold_doc_set_calm
           simp del: filter_filter
           split: if_splits option.splits sum.splits prod.splits
           dest!: save_calm dest: all_calm_loaded)

lemma post_comment_calm:
  assumes "post_comment now actor tid b s = (r, s')" and "all_calm (tickets s)"
  shows "all_calm (tickets s')"
  using assms
  by (auto simp: post_comment_def Let_def createTimelineEntry_frame findById_def
                 set_firstResponseAt_calm
           split: if_splits option.splits sum.splits prod.splits
           dest!: save_calm dest: all_calm_loaded)

lemma post_ticket_calm:
  assumes "post_ticket now new_id actor b s = (r, s')" and "all_calm (tickets s)"
  shows "all_calm (tickets s')"
  using assms
  by (auto simp: post_ticket_def Let_def createTimelineEntry_frame
           split: if_splits sum.splits prod.splits dest: Ticket_create_calm)

lemma fold_bulk_entries_tickets:
  "tickets (fold (\<lambda>i st. if P i then createTimelineEntry now i u a dt st else st) ids s) = tickets s"
  by (induction ids arbitrary: s) (simp_all add: createTimelineEntry_frame)

lemma post_bulk_assign_calm:
  assumes "post_bulk_assign now actor b s = (r, s')" and "all_calm (tickets s)"
  shows "all_calm (tickets s')"
  using assms
  by (auto simp: post_bulk_assign_def Let_def fold_bulk_entries_tickets updateMany_calm
           split: if_splits option.splits sum.splits prod.splits json.splits)

lemma ticketRoutes_calm:
  assumes "ticketRoutes now new_id req s = (r, s')" and "all_calm (tickets s)"
  shows "all_calm (tickets s')"
  using assms
  by (auto simp: ticketRoutes_def split: sum.splits route.splits
           dest: post_ticket_calm patch_ticket_calm post_comment_calm post_assign_calm
                 post_status_calm post_priority_calm post_bulk_assign_calm)

lemma reachable_calm: "reachable s \<Longrightarrow> all_calm (tickets s)"
proof (induction rule: reachable.induct)
  case (initial us)
  show ?case by (simp add: all_calm_def)
next
  case (request s now new_id req r s')
  then show ?case by (blast intro: ticketRoutes_calm)
qed

lemma checkSLABreaches_calm:
  assumes "calm t"
  shows "(isResponseBreached (sla (checkSLABreaches now t))
            \<longleftrightarrow> firstResponseAt t = None \<and> past now (responseDeadline (sla t)))
       \<and> (isResolutionBreached (sla (checkSLABreaches now t))
            \<longleftrightarrow> resolvedAt t = None \<and> past now (resolutionDeadline (sla t)))"
  using assms by (simp add: checkSLABreaches_def calm_def Let_def)

lemma checkSLABreaches_idem:
  "checkSLABreaches now (checkSLABreaches now t) = checkSLABreaches now t"
  by (simp add: checkSLABreaches_def Let_def)

text \<open>
  C6. For every ticket in a store the service can reach and every reading of the clock,
  the breach check reports \<open>isResponseBreached\<close> exactly when \<open>firstResponseAt\<close> is unset and
  the clock is past \<open>responseDeadline\<close>, and \<open>isResolutionBreached\<close> exactly when
  \<open>resolvedAt\<close> is unset and the clock is past \<open>resolutionDeadline\<close>; in particular a
  ticket with \<open>firstResponseAt\<close> set is reported as not response-breached. Running the
  check again with the same clock changes nothing.
\<close>

theorem breach_check_iff:
  assumes "reachable s" and "tickets s i = Some t"
  shows "(isResponseBreached (sla (checkSLABreaches now t))
            \<longleftrightarrow> firstResponseAt t = None \<and> past now (responseDeadline (sla t)))
       \<and> (isResolutionBreached (sla (checkSLABreaches now t))
            \<longleftrightarrow> resolvedAt t = None \<and> past now (resolutionDeadline (sla t)))
       \<and> checkSLABreaches now (checkSLABreaches now t) = checkSLABreaches now t"
proof -
  from reachable_calm [OF assms(1)] assms(2) have "calm t" by (auto simp: all_calm_def)
  from checkSLABreaches_calm [OF this] checkSLABreaches_idem show ?thesis by blast
qed


lemma reachable_store1: "reachable store1"
proof -
  have "reachable store0" unfolding store0_def by (rule reachable.initial)
  from reachable.request [OF this first_request_routed] show ?thesis .
qed

lemma comment_request_routed:
  "ticketRoutes (T0 + hours 3) ticket_id2 comment_request store1 = ((201, CommentBody comment1), store3)"
  by (simp add: ticketRoutes_def comment_request_def store1_fields authenticate_directory
      first_comment_eval)

lemma reachable_store3: "reachable store3"
  by (rule reachable.request [OF reachable_store1 comment_request_routed])

theorem breach_check_iff_witness:
  "reachable store1 \<and> tickets store1 ticket_id = Some ticket1
   \<and> isResponseBreached (sla (checkSLABreaches (T0 + hours 3) ticket1))
   \<and> \<not> isResolutionBreached (sla (checkSLABreaches (T0 + hours 3) ticket1))
   \<and> reachable store3 \<and> tickets store3 ticket_id = Some answered
   \<and> firstResponseAt answered = Some (T0 + hours 3)
   \<and> \<not> isResponseBreached (sla (checkSLABreaches (T0 + hours 4) answered))"
proof -
  have 1: "tickets store1 ticket_id = Some ticket1" by (simp add: store1_def)
  have 2: "tickets store3 ticket_id = Some answered" by (simp add: store3_def)
  have 3: "firstResponseAt answered = Some (T0 + hours 3)" by (simp add: answered_def)
  have 4: "firstResponseAt ticket1 = None \<and> past (T0 + hours 3) (responseDeadline (sla ticket1))"
    by (simp add: ticket1_def past_def hours_def)
  have 5: "\<not> (resolvedAt ticket1 = None \<and> past (T0 + hours 3) (resolutionDeadline (sla ticket1)))"
    by (simp add: ticket1_def past_def hours_def)
  from breach_check_iff [OF reachable_store1 1, of "T0 + hours 3"]
       breach_check_iff [OF reachable_store3 2, of "T0 + hours 4"]
       reachable_store1 reachable_store3 1 2 3 4 5
  show ?thesis by simp
qed

text \<open>The read route returns the ticket as the breach check leaves it.\<close>

lemma get_ticket_checks:
  assumes "stored_at s tid t" and "get_ticket now actor tid s = (200, bd)"
  shows "\<exists>cs es. bd = TicketDetail (checkSLABreaches now t) cs es"
  using assms by (auto simp: get_ticket_def findById_stored split: if_splits)

section \<open>Versions and the timeline\<close>

subsection \<open>Saving a loaded document\<close>





























subsection \<open>The claim on the routes\<close>







text \<open>
  The bulk route is not among them: \<open>updateMany\<close> writes the assignee without running the
  save hook, so the ticket changes and keeps its version and \<open>updatedAt\<close>.
\<close>

lemma bulk_assign_keeps_version:
  "post_bulk_assign (T0 + 6) admin bulk_body store1 =
     ((200, BulkBody 1),
      store1\<lparr>tickets := [ticket_id \<mapsto> bulk_assigned], timeline := [created_entry, bulk_entry]\<rparr>)"
  "assignedTo bulk_assigned \<noteq> assignedTo ticket1"
  "version bulk_assigned = version ticket1"
  "updatedAt bulk_assigned = updatedAt ticket1"
proof -
  have lk: "lookup_assignee (users store1) (Some (JStr agent_id)) = Inr (Some agent)"
    by (simp add: lookup_assignee_def findUser_def parse_ids store1_fields directory_lookup
        nonempty_ids)
  have v: "castObjectId (or_else (Some (JStr agent_id)) JNull) = Some (ObjId agent_id)"
    by (simp add: or_else_def nonempty_ids parse_ids)
  have n: "modifiedCount [ticket_id] (ObjId agent_id) (tickets store1) = 1"
    by (simp add: modifiedCount_def store1_fields ticket1_def)
  have m: "updateMany_assignedTo [ticket_id] (ObjId agent_id) (tickets store1)
             = [ticket_id \<mapsto> bulk_assigned]"
    by (auto simp: updateMany_assignedTo_def store1_fields bulk_assigned_def fun_eq_iff)
  show "post_bulk_assign (T0 + 6) admin bulk_body store1 =
     ((200, BulkBody 1),
      store1\<lparr>tickets := [ticket_id \<mapsto> bulk_assigned], timeline := [created_entry, bulk_entry]\<rparr>)"
    by (simp add: post_bulk_assign_def bulk_body_def authorize_def admin_def lk truthy_def
        nonempty_ids not_eligible_def parse_ids v n m Let_def createTimelineEntry_def)
       (simp add: store1_def agent_def bulk_entry_def)
  show "assignedTo bulk_assigned \<noteq> assignedTo ticket1"
       "version bulk_assigned = version ticket1"
       "updatedAt bulk_assigned = updatedAt ticket1"
    by (simp_all add: bulk_assigned_def ticket1_def)
qed

section \<open>Stored tickets keep their key, validity and shape\<close>

lemma dropWhile_fixed_head:
  assumes "dropWhile P (y # zs) = y # zs"
  shows "\<not> P y"
proof
  assume "P y"
  with assms have "dropWhile P zs = y # zs" by simp
  then have "length (dropWhile P zs) = Suc (length zs)" by simp
  moreover have "length (dropWhile P zs) \<le> length zs" by (rule length_dropWhile_le)
  ultimately show False by simp
qed

lemma dropWhile_rev_prefix:
  assumes fx: "dropWhile P xs = xs"
  shows "dropWhile P (rev (dropWhile P (rev xs))) = rev (dropWhile P (rev xs))"
proof (cases "rev (dropWhile P (rev xs))")
  case Nil
  show ?thesis unfolding Nil by simp
next
  case (Cons y ys)
  have "rev xs = takeWhile P (rev xs) @ dropWhile P (rev xs)" by simp
  then have "rev (rev xs) = rev (dropWhile P (rev xs)) @ rev (takeWhile P (rev xs))"
    by (simp only: rev_append [symmetric])
  with Cons have xs: "xs = y # (ys @ rev (takeWhile P (rev xs)))" by simp
  define zs where "zs = ys @ rev (takeWhile P (rev xs))"
  from xs have xz: "xs = y # zs" by (simp add: zs_def)
  from fx have "dropWhile P (y # zs) = y # zs" by (simp only: xz [symmetric])
  then have "\<not> P y" by (rule dropWhile_fixed_head)
  then show ?thesis unfolding Cons by simp
qed

lemma trim_idem: "trim (trim s) = trim s"
proof -
  let ?a = "dropWhile is_space s"
  let ?b = "rev (dropWhile is_space (rev ?a))"
  have a: "dropWhile is_space ?a = ?a" by (rule dropWhile_idem)
  have b: "dropWhile is_space ?b = ?b" by (rule dropWhile_rev_prefix [OF a])
  have "trim (trim s) = rev (dropWhile is_space (rev (dropWhile is_space ?b)))"
    by (simp add: trim_def)
  also have "\<dots> = rev (dropWhile is_space (rev ?b))" by (simp only: b)
  also have "\<dots> = ?b" by (simp add: dropWhile_idem)
  finally show ?thesis by (simp add: trim_def)
qed


lemma castString_shape: "castString v = Some x \<Longrightarrow> x = Null \<or> (\<exists>y. x = Str y)"
  by (cases v) auto

lemma castObjectId_shape: "castObjectId v = Some x \<Longrightarrow> x = Null \<or> (\<exists>i. x = ObjId i)"
  by (cases v) auto

lemma castTags_shape: "castTags v = Some x \<Longrightarrow> x = Null \<or> (\<exists>ys. x = Arr ys)"
  by (cases v) auto

lemma castTrimmed_shape:
  "castTrimmed v = Some x \<Longrightarrow> x = Null \<or> (\<exists>y. x = Str y \<and> trim y = y)"
  by (cases v) (auto simp: castTrimmed_def trim_idem)

lemma put_path_well_typed:
  assumes "cast_path k v = Some x" and "well_typed t"
  shows "well_typed (put_path k x t)"
proof -
  consider (title) "k = ''title''" | (assignee) "k = ''assignedTo''" | (tags) "k = ''tags''"
    | (other) "k \<noteq> ''title''" "k \<noteq> ''assignedTo''" "k \<noteq> ''tags''"
    by blast
  then show ?thesis
  proof cases
    case title
    with assms(1) have "castTrimmed v = Some x" by (simp add: cast_path_simps)
    from castTrimmed_shape [OF this] assms(2) title show ?thesis
      by (auto simp: put_path_simps well_typed_def)
  next
    case assignee
    with assms(1) have "castObjectId v = Some x" by (simp add: cast_path_simps)
    from castObjectId_shape [OF this] assms(2) assignee show ?thesis
      by (auto simp: put_path_simps well_typed_def)
  next
    case tags
    with assms(1) have "castTags v = Some x" by (simp add: cast_path_simps)
    from castTags_shape [OF this] assms(2) tags show ?thesis
      by (auto simp: put_path_simps well_typed_def)
  next
    case other
    with assms(2) show ?thesis by (auto simp: put_path_def well_typed_def)
  qed
qed

lemma doc_set_well_typed: "well_typed (cur d) \<Longrightarrow> well_typed (cur (doc_set k v d))"
  by (auto simp: doc_set_def put_path_well_typed split: option.splits)

lemma fold_doc_set_well_typed:
  "well_typed (cur d) \<Longrightarrow> well_typed (cur (fold (\<lambda>(k, v). doc_set k v) us d))"
  by (induction us arbitrary: d) (auto simp: doc_set_well_typed)

lemma pre_save_shape:
  "well_typed (cur (pre_save now d)) = well_typed (cur d)"
  "valid_ticket (cur (pre_save now d)) = valid_ticket (cur d)"
  by (simp_all add: pre_save_def Let_def well_typed_def valid_ticket_unfold)

lemma validate_valid: "validate d \<Longrightarrow> valid_ticket (cur d)"
  by (simp add: validate_def valid_ticket_def)

lemma save_sound:
  assumes "save now d m = Inr (t', m')" and "sound m" and "well_typed (cur d)"
  shows "sound m'"
proof -
  from save_result [OF assms(1)]
  have v: "validate d" and t': "t' = cur (pre_save now d)"
    and m': "m' = m \<or> m' = m(t_id (cur d) \<mapsto> t')" by auto
  have "t_id t' = t_id (cur d)" "valid_ticket t'" "well_typed t'"
    using validate_valid [OF v] assms(3) by (simp_all add: t' pre_save_frame pre_save_shape)
  with m' assms(2) show ?thesis by (auto simp: sound_def split: if_splits)
qed

lemma sound_loaded: "sound m \<Longrightarrow> m i = Some t \<Longrightarrow> well_typed (cur (loaded t))"
  by (auto simp: sound_def loaded_def)

lemma set_firstResponseAt_well_typed:
  "well_typed (cur (set_firstResponseAt now d)) = well_typed (cur d)"
  by (simp add: set_firstResponseAt_def well_typed_def)

lemma Ticket_create_sound:
  assumes "Ticket_create now new_id given creator m = Inr (t', m')" and "sound m"
  shows "sound m'"
proof -
  let ?d0 = "\<lparr>cur = blank_ticket new_id now creator, isNew = True, modifiedPaths = [], castErrors = []\<rparr>"
  let ?d1 = "fold (\<lambda>(k, v). doc_set k v) given ?d0"
  let ?d2 = "?d1\<lparr>cur := sla_defaults (cur ?d1)\<rparr>"
  have sv: "save now ?d2 m = Inr (t', m')" using assms(1) by (simp add: Ticket_create_def Let_def)
  have "well_typed (cur ?d0)" by (simp add: well_typed_def blank_ticket_def)
  then have "well_typed (cur ?d1)" by (rule fold_doc_set_well_typed)
  then have "well_typed (cur ?d2)" by (simp add: well_typed_def sla_defaults_def)
  from save_sound [OF sv assms(2) this] show ?thesis .
qed

lemma updateMany_sound:
  assumes "castObjectId j = Some v" and "sound m"
  shows "sound (updateMany_assignedTo ids v m)"
  using castObjectId_shape [OF assms(1)] assms(2)
  by (auto simp: sound_def updateMany_assignedTo_def valid_ticket_unfold well_typed_def
           split: if_splits)

lemma post_status_sound:
  assumes "post_status now actor tid b s = (r, s')" and "sound (tickets s)"
  shows "sound (tickets s')"
  using assms
  by (auto simp: post_status_def Let_def createTimelineEntry_frame findById_def
           split: if_splits option.splits sum.splits prod.splits
           dest!: save_sound dest: sound_loaded intro: doc_set_well_typed)

lemma post_priority_sound:
  assumes "post_priority now actor tid b s = (r, s')" and "sound (tickets s)"
  shows "sound (tickets s')"
  using assms
  by (auto simp: post_priority_def Let_def createTimelineEntry_frame findById_def
           split: if_splits option.splits sum.splits prod.splits
           dest!: save_sound dest: sound_loaded intro: doc_set_well_typed)

lemma post_assign_sound:
  assumes "post_assign now actor tid b s = (r, s')" and "sound (tickets s)"
  shows "sound (tickets s')"
  using assms
  by (auto simp: post_assign_def Let_def createTimelineEntry_frame findById_def
           split: if_splits option.splits sum.splits prod.splits
           dest!: save_sound dest: sound_loaded intro: doc_set_well_typed)

lemma patch_ticket_sound:
  assumes "patch_ticket now actor tid b s = (r, s')" and "sound (tickets s)"
  shows "sound (tickets s')"
  using assms
  by (auto simp: patch_ticket_def Let_def createTimelineEntry_frame fold_entries_frame
                 findById_def
           simp del: filter_filter
           split: if_splits option.splits sum.splits prod.splits
           dest!: save_sound dest: sound_loaded intro: fold_doc_set_well_typed)

lemma post_comment_sound:
  assumes "post_comment now actor tid b s = (r, s')" and "sound (tickets s)"
  shows "sound (tickets s')"
  using assms
  by (auto simp: post_comment_def Let_def createTimelineEntry_frame findById_def
                 set_firstResponseAt_well_typed
           split: if_splits option.splits sum.splits prod.splits
           dest!: save_sound dest: sound_loaded)

lemma post_ticket_sound:
  assumes "post_ticket now new_id actor b s = (r, s')" and "sound (tickets s)"
  shows "sound (tickets s')"
  using assms
  by (auto simp: post_ticket_def Let_def createTimelineEntry_frame
           split: if_splits sum.splits prod.splits dest: Ticket_create_sound)

lemma post_bulk_assign_sound:
  assumes "post_bulk_assign now actor b s = (r, s')" and "sound (tickets s)"
  shows "sound (tickets s')"
  using assms
  by (auto simp: post_bulk_assign_def Let_def fold_bulk_entries_tickets
           split: if_splits option.splits sum.splits prod.splits json.splits
           intro: updateMany_sound)

lemma ticketRoutes_sound:
  assumes "ticketRoutes now new_id req s = (r, s')" and "sound (tickets s)"
  shows "sound (tickets s')"
  using assms
  by (auto simp: ticketRoutes_def split: sum.splits route.splits
           dest: post_ticket_sound patch_ticket_sound post_comment_sound post_assign_sound
                 post_status_sound post_priority_sound post_bulk_assign_sound)

lemma reachable_sound: "reachable s \<Longrightarrow> sound (tickets s)"
proof (induction rule: reachable.induct)
  case (initial us)
  show ?case by (simp add: sound_def)
next
  case (request s now new_id req r s')
  then show ?case by (blast intro: ticketRoutes_sound)
qed

text \<open>
  So the hypotheses the theorems put on a stored ticket hold for every ticket the service
  can store.
\<close>

lemma reachable_stored:
  assumes "reachable s" and "parse_oid tid = Some i" and "tickets s i = Some t"
  shows "stored_at s tid t \<and> valid_ticket t \<and> well_typed t"
  using reachable_sound [OF assms(1)] assms(2,3) by (auto simp: sound_def stored_at_def)

lemma app_reachable:
  assumes "reachable (db s)" and "app now new_id req s = (r, s')"
  shows "reachable (db s')"
proof (cases "ticketRoutes now new_id req (db s)")
  case (Pair r0 d0)
  from reachable.request [OF assms(1) Pair] have "reachable d0" .
  with assms Pair show ?thesis
    by (auto simp: app_def idempotencyMiddleware_def Let_def split: if_splits option.splits)
qed

end
